theory Spec2Isabelle
  imports Complex_Main
begin

section \<open>connect-typeorm: the TypeormStore session store\<close>

text \<open>
  A shallow embedding of \<^verbatim>\<open>src/app/TypeormStore/TypeormStore.ts\<close>. The store is a
  class whose methods are \<^verbatim>\<open>async\<close> functions with a \<^verbatim>\<open>try\<close>/\<^verbatim>\<open>catch\<close> around their
  body; they talk to a TypeORM repository, call the completion callback of the caller and
  signal failures through \<^verbatim>\<open>handleError\<close>. The embedding keeps that shape: a method is a
  function on an explicit environment (the rows of the repository, the statements issued
  so far, the callbacks and events observed so far), exceptions are values of a sum type,
  and \<^verbatim>\<open>try\<close>/\<^verbatim>\<open>catch\<close> is a combinator.
\<close>

subsection \<open>Values, exceptions and session data\<close>

text \<open>
  The values a JavaScript property can hold, as far as \<^verbatim>\<open>typeof x === "number"\<close> can tell
  them apart. Numbers are modelled as mathematical integers (milliseconds and seconds):
  rounding of IEEE doubles, \<^verbatim>\<open>NaN\<close> and the infinities are outside the model.
\<close>

datatype jsval = JUndefined | JNull | JNumber int | JString string | JBoolean bool

text \<open>What a \<^verbatim>\<open>throw\<close> can carry, by origin.\<close>

datatype exn =
    NotConnected                \<comment> \<open>\<^verbatim>\<open>new Error('Not connected')\<close> of \<^verbatim>\<open>getRepository\<close>\<close>
  | EntityNotFound              \<comment> \<open>\<^verbatim>\<open>findOneOrFail\<close> found no row\<close>
  | StorageError string         \<comment> \<open>any other failure of the repository\<close>
  | SerializationError string   \<comment> \<open>\<^verbatim>\<open>JSON.stringify\<close> or \<^verbatim>\<open>JSON.parse\<close> threw\<close>
  | TypeError string            \<comment> \<open>a property read on \<^verbatim>\<open>undefined\<close>\<close>
  | Thrown string               \<comment> \<open>thrown by code of the caller (a callback, a ttl function)\<close>

text \<open>
  \<^verbatim>\<open>SessionData\<close> of express-session: an object with a \<^verbatim>\<open>cookie\<close> property and
  further properties of the application. The declared type makes \<^verbatim>\<open>cookie\<close> mandatory,
  but JavaScript does not check that at run time, so the model lets the property be
  absent: \<open>cookie s = None\<close> is \<^verbatim>\<open>s.cookie === undefined\<close>.
\<close>

record Cookie =
  maxAge :: jsval

record SessionData =
  cookie :: "Cookie option"
  content :: "(string \<times> jsval) list"

subsection \<open>The options of the store and the TTL policy\<close>

text \<open>
  \<^verbatim>\<open>type Ttl = number | ((store, sess, sid?) => number)\<close>. The function may throw, so it
  returns a sum. Its first argument is the store itself, which is immutable after
  construction; the model leaves that argument out (a record cannot contain functions
  of itself). The optional \<^verbatim>\<open>sid\<close> is an \<open>option\<close>.
\<close>

datatype Ttl =
    TtlNumber int
  | TtlFunction "SessionData \<Rightarrow> string option \<Rightarrow> exn + int"

text \<open>
  The private fields of \<^verbatim>\<open>TypeormStore\<close>. \<open>connected\<close> is
  \<^verbatim>\<open>this.repository !== undefined\<close>; the rows of the repository live in the environment.
  \<open>onError\<close> may throw, so it returns the exception it throws, if any.
\<close>

record TypeormStore =
  cleanupLimit :: "int option"
  limitSubquery :: bool
  onError :: "(exn \<Rightarrow> exn option) option"
  ttl :: "Ttl option"
  connected :: bool

definition oneDay :: int where
  "oneDay = 86400"

text \<open>\<^verbatim>\<open>Math.floor(x / 1000)\<close> on an integer number of milliseconds.\<close>

definition Math_floor_div_1000 :: "int \<Rightarrow> int" where
  "Math_floor_div_1000 m = \<lfloor>real_of_int m / 1000\<rfloor>"

text \<open>
  \<^verbatim>\<open>getTTL(sess, sid?)\<close>. Reading \<^verbatim>\<open>sess.cookie.maxAge\<close> when \<^verbatim>\<open>sess.cookie\<close> is
  \<^verbatim>\<open>undefined\<close> throws a \<^verbatim>\<open>TypeError\<close>.
\<close>

definition getTTL :: "TypeormStore \<Rightarrow> SessionData \<Rightarrow> string option \<Rightarrow> exn + int" where
  "getTTL this sess sid =
     (case ttl this of
        Some (TtlNumber n) \<Rightarrow> Inr n
      | Some (TtlFunction f) \<Rightarrow> f sess sid
      | None \<Rightarrow>
          (case cookie sess of
             None \<Rightarrow> Inl (TypeError ''Cannot read properties of undefined (reading maxAge)'')
           | Some c \<Rightarrow>
               (case maxAge c of
                  JNumber m \<Rightarrow> Inr (Math_floor_div_1000 m)
                | _ \<Rightarrow> Inr oneDay)))"

subsection \<open>Rendering ids for the enumerated cleanup\<close>

text \<open>
  The \<^verbatim>\<open>id\<close> column is declared a string, but \<^verbatim>\<open>cleanup\<close> tests
  \<^verbatim>\<open>typeof x.id === "string"\<close> and renders any other id with a template literal, so
  a row id is a string or a number.
\<close>

datatype row_id = IdString string | IdNumber int

definition backslash :: char where
  "backslash = CHR 0x5C"

definition quote :: char where
  "quote = CHR 0x27"

text \<open>\<^verbatim>\<open>s.replace(/\\/g, "\\\\")\<close>: every backslash becomes two.\<close>

definition replace_backslashes :: "string \<Rightarrow> string" where
  "replace_backslashes s = concat (map (\<lambda>c. if c = backslash then [backslash, backslash] else [c]) s)"

text \<open>\<^verbatim>\<open>s.replace(/'/g, "\\'")\<close>: every single quote gets a backslash in front.\<close>

definition replace_quotes :: "string \<Rightarrow> string" where
  "replace_quotes s = concat (map (\<lambda>c. if c = quote then [backslash, quote] else [c]) s)"

text \<open>The decimal digits of a natural number, and \<^verbatim>\<open>`${n}`\<close> for an integer.\<close>

definition digit_char :: "nat \<Rightarrow> char" where
  "digit_char d = char_of (48 + d)"

fun digits :: "nat \<Rightarrow> string" where
  "digits n = (if n < 10 then [digit_char n] else digits (n div 10) @ [digit_char (n mod 10)])"

declare digits.simps [simp del]

definition number_to_string :: "int \<Rightarrow> string" where
  "number_to_string i = (if i < 0 then CHR ''-'' # digits (nat (- i)) else digits (nat i))"

text \<open>The function mapped over the candidate rows in \<^verbatim>\<open>cleanup\<close>.\<close>

definition escape_id :: "row_id \<Rightarrow> string" where
  "escape_id x =
     (case x of
        IdString s \<Rightarrow> [quote] @ replace_quotes (replace_backslashes s) @ [quote]
      | IdNumber n \<Rightarrow> number_to_string n)"

text \<open>\<^verbatim>\<open>xs.join(", ")\<close>.\<close>

fun join :: "string list \<Rightarrow> string" where
  "join [] = []"
| "join [x] = x"
| "join (x # y # ys) = x @ '', '' @ join (y # ys)"

text \<open>
  The reader of a backslash-escaped literal, which the source does not contain: it is
  the inverse the specification speaks of when it says that the escaping round-trips.
  A literal opens with a single quote; then a backslash makes the next character
  literal, an unescaped single quote closes the literal and must be its last character,
  and every other character stands for itself.
\<close>

fun unescape_body :: "string \<Rightarrow> string option" where
  "unescape_body [] = None"
| "unescape_body (c # cs) =
     (if c = quote then (if cs = [] then Some [] else None)
      else if c = backslash then
        (case cs of
           [] \<Rightarrow> None
         | d # ds \<Rightarrow> map_option ((#) d) (unescape_body ds))
      else map_option ((#) c) (unescape_body cs))"

definition unescape :: "string \<Rightarrow> string option" where
  "unescape s = (case s of [] \<Rightarrow> None | c # cs \<Rightarrow> if c = quote then unescape_body cs else None)"

subsection \<open>The repository and the environment of an operation\<close>

text \<open>
  A row of the session table (\<^verbatim>\<open>ISession\<close>). \<^verbatim>\<open>id\<close> is the primary key;
  \<open>destroyedAt\<close> is the soft-delete column, \<open>None\<close> for \<^verbatim>\<open>NULL\<close>.
\<close>

record ISession =
  id' :: row_id
  json :: string
  expiredAt :: int
  destroyedAt :: "int option"

text \<open>
  A select query under construction: \<^verbatim>\<open>where("session.expiredAt > :expiredAt")\<close> and the
  optional \<^verbatim>\<open>andWhere("session.id = :id")\<close>.
\<close>

record query =
  expiredAfter :: int
  idEquals :: "string option"

text \<open>
  The text spliced into \<^verbatim>\<open>id IN (...)\<close> by \<^verbatim>\<open>cleanup\<close>: the select rendered by
  \<^verbatim>\<open>getQuery()\<close> (its bound and its limit), or the joined literals.
\<close>

datatype in_list = Subquery int int | Literal string

text \<open>The statements the store sends to the repository, with their parameters.\<close>

datatype stmt =
    SelectOne query                 \<comment> \<open>\<^verbatim>\<open>createQueryBuilder()...getOne()\<close>\<close>
  | SelectMany query                \<comment> \<open>\<^verbatim>\<open>createQueryBuilder().getMany()\<close>\<close>
  | FindOneOrFail string            \<comment> \<open>\<^verbatim>\<open>findOneOrFail({ where: { id }, withDeleted: true })\<close>\<close>
  | Update string int string        \<comment> \<open>\<^verbatim>\<open>update({ destroyedAt: IsNull(), id }, { expiredAt, json })\<close>\<close>
  | Insert string int string        \<comment> \<open>\<^verbatim>\<open>insert({ expiredAt, id, json })\<close>\<close>
  | SoftDelete string               \<comment> \<open>\<^verbatim>\<open>softDelete({ id })\<close>\<close>
  | UpdateExpiry string int         \<comment> \<open>\<^verbatim>\<open>update({ expiredAt }).whereInIds([sid])\<close>\<close>
  | SelectExpired int int           \<comment> \<open>the candidate select of \<^verbatim>\<open>cleanup\<close>, run by \<^verbatim>\<open>getMany()\<close>\<close>
  | Delete in_list                  \<comment> \<open>\<^verbatim>\<open>delete().where(`id IN (${ids})`)\<close>\<close>

text \<open>The arguments a completion callback is called with.\<close>

datatype cb_args =
    CbDone                                  \<comment> \<open>\<^verbatim>\<open>callback()\<close>\<close>
  | CbResult SessionData                    \<comment> \<open>\<^verbatim>\<open>callback(undefined, result)\<close> of \<^verbatim>\<open>get\<close>\<close>
  | CbError exn                             \<comment> \<open>\<^verbatim>\<open>callback(err)\<close>\<close>
  | CbAll "(row_id \<times> SessionData) list"    \<comment> \<open>\<^verbatim>\<open>callback(undefined, result)\<close> of \<^verbatim>\<open>all\<close>\<close>
  | CbAllError exn                          \<comment> \<open>\<^verbatim>\<open>callback(err, [])\<close>\<close>

text \<open>A callback of the caller: it returns normally (\<open>None\<close>) or throws.\<close>

type_synonym callback = "cb_args \<Rightarrow> exn option"

text \<open>What the host application observes of an operation, in order.\<close>

datatype signal =
    Callback cb_args      \<comment> \<open>the completion callback was called\<close>
  | OnError exn           \<comment> \<open>\<^verbatim>\<open>this.onError(this, er)\<close>\<close>
  | Emit string exn       \<comment> \<open>\<^verbatim>\<open>this.emit("disconnect", er)\<close>\<close>

text \<open>
  The environment of one operation. \<open>now\<close> is what \<^verbatim>\<open>Date.now()\<close> returns (the clock
  does not advance within an operation). \<open>rows\<close> is the session table, in the order the
  engine enumerates it. \<open>faults\<close> says which statements fail: the statement issued when
  \<open>n\<close> statements have been issued before fails with \<open>faults n\<close>, leaving the table as
  it was. \<open>in_literal\<close> is the engine's reading of a literal list
  \<^verbatim>\<open>id IN (text)\<close>. \<open>JSON_stringify\<close> and \<open>JSON_parse\<close> are the host's; both may
  throw. \<open>issued\<close> and \<open>signals\<close> record what the operation did.
\<close>

record env =
  now :: int
  rows :: "ISession list"
  faults :: "nat \<Rightarrow> exn option"
  in_literal :: "string \<Rightarrow> row_id \<Rightarrow> bool"
  JSON_stringify :: "SessionData \<Rightarrow> exn + string"
  JSON_parse :: "string \<Rightarrow> exn + SessionData"
  issued :: "stmt list"
  signals :: "signal list"

text \<open>A computation that may throw and may change the environment.\<close>

type_synonym 'a io = "env \<Rightarrow> (exn + 'a) \<times> env"

definition return_io :: "'a \<Rightarrow> 'a io" where
  "return_io x w = (Inr x, w)"

definition throw :: "exn \<Rightarrow> 'a io" where
  "throw e w = (Inl e, w)"

definition lift :: "exn + 'a \<Rightarrow> 'a io" where
  "lift r w = (r, w)"

definition bind_io :: "'a io \<Rightarrow> ('a \<Rightarrow> 'b io) \<Rightarrow> 'b io" where
  "bind_io m f w = (case m w of (Inl e, w') \<Rightarrow> (Inl e, w') | (Inr x, w') \<Rightarrow> f x w')"

definition try_catch :: "'a io \<Rightarrow> (exn \<Rightarrow> 'a io) \<Rightarrow> 'a io" where
  "try_catch m h w = (case m w of (Inl e, w') \<Rightarrow> h e w' | (Inr x, w') \<Rightarrow> (Inr x, w'))"

definition Date_now :: "int io" where
  "Date_now w = (Inr (now w), w)"

definition invoke :: "callback \<Rightarrow> cb_args \<Rightarrow> unit io" where
  "invoke cb a w =
     (let w' = w\<lparr>signals := signals w @ [Callback a]\<rparr>
      in case cb a of None \<Rightarrow> (Inr (), w') | Some e \<Rightarrow> (Inl e, w'))"

text \<open>\<^verbatim>\<open>callback?.(...)\<close>: nothing happens without a callback.\<close>

definition invoke_opt :: "callback option \<Rightarrow> cb_args \<Rightarrow> unit io" where
  "invoke_opt cbo a = (case cbo of None \<Rightarrow> return_io () | Some cb \<Rightarrow> invoke cb a)"

subsection \<open>The primitives of the repository\<close>

text \<open>
  TypeORM is not part of the repository under study; its primitives are modelled by
  what they do to the table. Every primitive issues one statement, which is recorded
  and may fail as \<open>faults\<close> says.
\<close>

definition issue :: "stmt \<Rightarrow> unit io" where
  "issue s w =
     (let w' = w\<lparr>issued := issued w @ [s]\<rparr>
      in case faults w (length (issued w)) of None \<Rightarrow> (Inr (), w') | Some e \<Rightarrow> (Inl e, w'))"

text \<open>
  A select built without \<^verbatim>\<open>withDeleted()\<close> skips soft-deleted rows: TypeORM adds
  \<^verbatim>\<open>destroyedAt IS NULL\<close> for an entity with a delete-date column.
\<close>

definition matches :: "query \<Rightarrow> ISession \<Rightarrow> bool" where
  "matches q r \<longleftrightarrow>
     destroyedAt r = None \<and> expiredAt r > expiredAfter q \<and>
     (case idEquals q of None \<Rightarrow> True | Some s \<Rightarrow> id' r = IdString s)"

definition getOne :: "query \<Rightarrow> ISession option io" where
  "getOne q = bind_io (issue (SelectOne q)) (\<lambda>_ w. (Inr (find (matches q) (rows w)), w))"

definition getMany :: "query \<Rightarrow> ISession list io" where
  "getMany q = bind_io (issue (SelectMany q)) (\<lambda>_ w. (Inr (filter (matches q) (rows w)), w))"

definition findOneOrFail :: "string \<Rightarrow> ISession io" where
  "findOneOrFail sid =
     bind_io (issue (FindOneOrFail sid)) (\<lambda>_ w.
       case find (\<lambda>r. id' r = IdString sid) (rows w) of
         None \<Rightarrow> (Inl EntityNotFound, w)
       | Some r \<Rightarrow> (Inr r, w))"

definition update :: "string \<Rightarrow> int \<Rightarrow> string \<Rightarrow> unit io" where
  "update sid e j =
     bind_io (issue (Update sid e j)) (\<lambda>_ w.
       (Inr (), w\<lparr>rows := map (\<lambda>r. if id' r = IdString sid \<and> destroyedAt r = None
                                       then r\<lparr>json := j, expiredAt := e\<rparr> else r) (rows w)\<rparr>))"

text \<open>\<^verbatim>\<open>id\<close> is the primary key: inserting a second row with an id fails.\<close>

definition insert_row :: "string \<Rightarrow> int \<Rightarrow> string \<Rightarrow> unit io" where
  "insert_row sid e j =
     bind_io (issue (Insert sid e j)) (\<lambda>_ w.
       if \<exists>r \<in> set (rows w). id' r = IdString sid
       then (Inl (StorageError ''UNIQUE constraint failed: session.id''), w)
       else (Inr (), w\<lparr>rows := rows w @
               [\<lparr>id' = IdString sid, json = j, expiredAt = e, destroyedAt = None\<rparr>]\<rparr>))"

definition softDelete :: "string \<Rightarrow> unit io" where
  "softDelete sid =
     bind_io (issue (SoftDelete sid)) (\<lambda>_ w.
       (Inr (), w\<lparr>rows := map (\<lambda>r. if id' r = IdString sid
                                       then r\<lparr>destroyedAt := Some (now w)\<rparr> else r) (rows w)\<rparr>))"

text \<open>The update of \<^verbatim>\<open>touch\<close>: keyed on the id alone.\<close>

definition update_expiry :: "string \<Rightarrow> int \<Rightarrow> unit io" where
  "update_expiry sid e =
     bind_io (issue (UpdateExpiry sid e)) (\<lambda>_ w.
       (Inr (), w\<lparr>rows := map (\<lambda>r. if id' r = IdString sid
                                       then r\<lparr>expiredAt := e\<rparr> else r) (rows w)\<rparr>))"

text \<open>
  The candidates of \<^verbatim>\<open>cleanup\<close>: \<^verbatim>\<open>withDeleted()\<close>, \<^verbatim>\<open>expiredAt <= t\<close>, at most \<open>n\<close> of
  them (a limit that is not positive selects nothing here).
\<close>

definition candidates :: "int \<Rightarrow> int \<Rightarrow> ISession list \<Rightarrow> ISession list" where
  "candidates t n rs = take (nat n) (filter (\<lambda>r. expiredAt r \<le> t) rs)"

definition getMany_expired :: "int \<Rightarrow> int \<Rightarrow> ISession list io" where
  "getMany_expired t n =
     bind_io (issue (SelectExpired t n)) (\<lambda>_ w. (Inr (candidates t n (rows w)), w))"

definition in_list_holds :: "env \<Rightarrow> in_list \<Rightarrow> row_id \<Rightarrow> bool" where
  "in_list_holds w l i =
     (case l of
        Subquery t n \<Rightarrow> i \<in> set (map id' (candidates t n (rows w)))
      | Literal text \<Rightarrow> in_literal w text i)"

definition delete_in :: "in_list \<Rightarrow> unit io" where
  "delete_in l =
     bind_io (issue (Delete l)) (\<lambda>_ w.
       (Inr (), w\<lparr>rows := filter (\<lambda>r. \<not> in_list_holds w l (id' r)) (rows w)\<rparr>))"

subsection \<open>The private methods of the store\<close>

definition getRepository :: "TypeormStore \<Rightarrow> unit io" where
  "getRepository this = (if connected this then return_io () else throw NotConnected)"

text \<open>
  \<^verbatim>\<open>handleError(er)\<close>: the handler of the options if there is one, the
  \<^verbatim>\<open>"disconnect"\<close> event otherwise.
\<close>

definition handleError :: "TypeormStore \<Rightarrow> exn \<Rightarrow> unit io" where
  "handleError this er w =
     (case onError this of
        Some h \<Rightarrow>
          (let w' = w\<lparr>signals := signals w @ [OnError er]\<rparr>
           in case h er of None \<Rightarrow> (Inr (), w') | Some e \<Rightarrow> (Inl e, w'))
      | None \<Rightarrow> (Inr (), w\<lparr>signals := signals w @ [Emit ''disconnect'' er]\<rparr>))"

text \<open>\<^verbatim>\<open>createQueryBuilder()\<close>: the select of the rows that have not expired.\<close>

definition createQueryBuilder :: "TypeormStore \<Rightarrow> query io" where
  "createQueryBuilder this =
     bind_io (getRepository this) (\<lambda>_.
     bind_io Date_now (\<lambda>t.
     return_io \<lparr>expiredAfter = t, idEquals = None\<rparr>))"

text \<open>
  \<^verbatim>\<open>if (!ids) { return; }\<close>: \<^verbatim>\<open>ids\<close> is \<^verbatim>\<open>undefined\<close> or the empty string. The text
  of \<^verbatim>\<open>getQuery()\<close> is never empty.
\<close>

definition falsy :: "in_list option \<Rightarrow> bool" where
  "falsy ids = (case ids of None \<Rightarrow> True | Some (Literal s) \<Rightarrow> s = [] | Some (Subquery t n) \<Rightarrow> False)"

text \<open>\<^verbatim>\<open>cleanup()\<close>. \<^verbatim>\<open>!this.cleanupLimit\<close> holds for \<^verbatim>\<open>undefined\<close> and for \<open>0\<close>.\<close>

definition cleanup :: "TypeormStore \<Rightarrow> unit io" where
  "cleanup this =
     (case cleanupLimit this of
        None \<Rightarrow> return_io ()
      | Some n \<Rightarrow>
          if n = 0 then return_io ()
          else
            bind_io (getRepository this) (\<lambda>_.
            bind_io Date_now (\<lambda>t.
            bind_io
              (if limitSubquery this then return_io (Some (Subquery t n))
               else
                 bind_io (getMany_expired t n) (\<lambda>xs.
                 return_io
                   (if length xs > 0 then Some (Literal (join (map (\<lambda>x. escape_id (id' x)) xs)))
                    else None)))
              (\<lambda>ids.
                 if falsy ids then return_io ()
                 else
                   (case ids of
                      None \<Rightarrow> return_io ()
                    | Some l \<Rightarrow> bind_io (getRepository this) (\<lambda>_. delete_in l))))))"

subsection \<open>The public operations\<close>

text \<open>
  Every public method is \<^verbatim>\<open>async m(...) { try { ... } catch (e) { ... } }\<close>. The
  \<^verbatim>\<open>try\<close> block of \<^verbatim>\<open>m\<close> is \<open>m_try\<close> below, the common \<^verbatim>\<open>catch\<close> block is
  \<open>on_catch\<close>: \<^verbatim>\<open>callback?.(err); this.handleError(err);\<close>. A callback that throws
  there ends the block before \<^verbatim>\<open>handleError\<close>. The result of an operation is the
  promise of the method: \<open>Inr ()\<close> fulfilled, \<open>Inl e\<close> rejected with what the
  \<^verbatim>\<open>catch\<close> block threw.
\<close>

definition on_catch :: "TypeormStore \<Rightarrow> callback option \<Rightarrow> (exn \<Rightarrow> cb_args) \<Rightarrow> exn \<Rightarrow> unit io" where
  "on_catch this callback mk err =
     bind_io (invoke_opt callback (mk err)) (\<lambda>_. handleError this err)"

text \<open>\<^verbatim>\<open>get(sid, callback)\<close>.\<close>

definition get_try :: "TypeormStore \<Rightarrow> string \<Rightarrow> callback \<Rightarrow> unit io" where
  "get_try this sid callback =
     bind_io (createQueryBuilder this) (\<lambda>q.
     bind_io (getOne (q\<lparr>idEquals := Some sid\<rparr>)) (\<lambda>session.
       case session of
         None \<Rightarrow> invoke callback CbDone
       | Some s \<Rightarrow>
           (\<lambda>w. bind_io (lift (JSON_parse w (json s))) (\<lambda>result.
                 invoke callback (CbResult result)) w)))"

definition get :: "TypeormStore \<Rightarrow> string \<Rightarrow> callback \<Rightarrow> unit io" where
  "get this sid callback =
     try_catch (get_try this sid callback) (on_catch this (Some callback) CbError)"

text \<open>
  The inner \<^verbatim>\<open>try\<close> of \<^verbatim>\<open>set\<close>: \<^verbatim>\<open>findOneOrFail\<close>, then \<^verbatim>\<open>update\<close>; \<^verbatim>\<open>catch (_)\<close>,
  \<^verbatim>\<open>insert\<close>, whatever was thrown.
\<close>

definition upsert :: "string \<Rightarrow> string \<Rightarrow> int \<Rightarrow> unit io" where
  "upsert sid j ttl_s =
     try_catch
       (bind_io (findOneOrFail sid) (\<lambda>_.
        bind_io Date_now (\<lambda>t.
        update sid (t + ttl_s * 1000) j)))
       (\<lambda>_.
        bind_io Date_now (\<lambda>t.
        insert_row sid (t + ttl_s * 1000) j))"

text \<open>
  \<^verbatim>\<open>set(sid, session, callback?)\<close>. A \<^verbatim>\<open>JSON.stringify\<close> that throws is caught by a
  handler of its own: \<^verbatim>\<open>return callback?.(er)\<close>.
\<close>

definition set_try :: "TypeormStore \<Rightarrow> string \<Rightarrow> SessionData \<Rightarrow> callback option \<Rightarrow> unit io" where
  "set_try this sid session callback =
     bind_io (getRepository this) (\<lambda>_ w.
       case JSON_stringify w session of
         Inl er \<Rightarrow> invoke_opt callback (CbError er) w
       | Inr j \<Rightarrow>
           bind_io (lift (getTTL this session (Some sid))) (\<lambda>ttl_s.
           bind_io (cleanup this) (\<lambda>_.
           bind_io (upsert sid j ttl_s) (\<lambda>_.
           invoke_opt callback CbDone))) w)"

definition set' :: "TypeormStore \<Rightarrow> string \<Rightarrow> SessionData \<Rightarrow> callback option \<Rightarrow> unit io" where
  "set' this sid session callback =
     try_catch (set_try this sid session callback) (on_catch this callback CbError)"

text \<open>
  \<^verbatim>\<open>destroy(sid | sid[], callback?)\<close>. \<^verbatim>\<open>sids.map\<close> starts every soft delete, whether or
  not an earlier one fails; \<^verbatim>\<open>Promise.all\<close> then rejects with a failure if there is one.
  The model runs them in the order of the list and keeps the first failure.
\<close>

datatype sid_arg = One string | Many "string list"

definition as_list :: "sid_arg \<Rightarrow> string list" where
  "as_list a = (case a of One s \<Rightarrow> [s] | Many ss \<Rightarrow> ss)"

fun softDelete_all :: "string list \<Rightarrow> env \<Rightarrow> exn option \<times> env" where
  "softDelete_all [] w = (None, w)"
| "softDelete_all (x # xs) w =
     (case softDelete x w of
        (Inl e, w') \<Rightarrow> (Some e, snd (softDelete_all xs w'))
      | (Inr _, w') \<Rightarrow> softDelete_all xs w')"

definition Promise_all_softDelete :: "string list \<Rightarrow> unit io" where
  "Promise_all_softDelete sids w =
     (case softDelete_all sids w of (None, w') \<Rightarrow> (Inr (), w') | (Some e, w') \<Rightarrow> (Inl e, w'))"

definition destroy_try :: "TypeormStore \<Rightarrow> sid_arg \<Rightarrow> callback option \<Rightarrow> unit io" where
  "destroy_try this sid callback =
     bind_io (getRepository this) (\<lambda>_.
     bind_io (Promise_all_softDelete (as_list sid)) (\<lambda>_.
     invoke_opt callback CbDone))"

definition destroy :: "TypeormStore \<Rightarrow> sid_arg \<Rightarrow> callback option \<Rightarrow> unit io" where
  "destroy this sid callback =
     try_catch (destroy_try this sid callback) (on_catch this callback CbError)"

text \<open>\<^verbatim>\<open>touch(sid, session, callback?)\<close>: \<^verbatim>\<open>getTTL\<close> is called without a \<^verbatim>\<open>sid\<close>.\<close>

definition touch_try :: "TypeormStore \<Rightarrow> string \<Rightarrow> SessionData \<Rightarrow> callback option \<Rightarrow> unit io" where
  "touch_try this sid session callback =
     bind_io (lift (getTTL this session None)) (\<lambda>ttl_s.
     bind_io (getRepository this) (\<lambda>_.
     bind_io Date_now (\<lambda>t.
     bind_io (update_expiry sid (t + ttl_s * 1000)) (\<lambda>_.
     invoke_opt callback CbDone))))"

definition touch :: "TypeormStore \<Rightarrow> string \<Rightarrow> SessionData \<Rightarrow> callback option \<Rightarrow> unit io" where
  "touch this sid session callback =
     try_catch (touch_try this sid session callback) (on_catch this callback CbError)"

text \<open>
  \<^verbatim>\<open>all(callback)\<close>. \<^verbatim>\<open>sessions.map\<close> parses the rows in order and stops at the first
  payload that does not parse. An entry of the result is
  \<^verbatim>\<open>{ id: session.id, ...sessionData }\<close>, modelled as the pair of the two.
\<close>

fun parse_rows :: "(string \<Rightarrow> exn + SessionData) \<Rightarrow> ISession list \<Rightarrow> exn + (row_id \<times> SessionData) list" where
  "parse_rows parse [] = Inr []"
| "parse_rows parse (s # ss) =
     (case parse (json s) of
        Inl e \<Rightarrow> Inl e
      | Inr d \<Rightarrow> (case parse_rows parse ss of Inl e \<Rightarrow> Inl e | Inr ds \<Rightarrow> Inr ((id' s, d) # ds)))"

definition all_try :: "TypeormStore \<Rightarrow> callback \<Rightarrow> unit io" where
  "all_try this callback =
     bind_io (createQueryBuilder this) (\<lambda>q.
     bind_io (getMany q) (\<lambda>sessions w.
       bind_io (lift (parse_rows (JSON_parse w) sessions)) (\<lambda>result.
       invoke callback (CbAll result)) w))"

definition all' :: "TypeormStore \<Rightarrow> callback \<Rightarrow> unit io" where
  "all' this callback =
     try_catch (all_try this callback) (on_catch this (Some callback) CbAllError)"

subsection \<open>The legacy copy of the store\<close>

text \<open>
  The repository holds a second copy of the class, in which \<^verbatim>\<open>set\<close> contains the cleanup
  inline (\<^verbatim>\<open>if (this.cleanupLimit) { ... }\<close>). That block differs from \<^verbatim>\<open>cleanup()\<close> in
  two places: it reads \<^verbatim>\<open>this.repository\<close> directly, which throws a \<^verbatim>\<open>TypeError\<close> on a
  store that is not connected, and \<^verbatim>\<open>ids\<close> starts as the text \<^verbatim>\<open>"NULL"\<close> instead of
  \<^verbatim>\<open>undefined\<close>, with no test before the delete.
\<close>

definition legacy_repository :: "TypeormStore \<Rightarrow> unit io" where
  "legacy_repository this =
     (if connected this then return_io ()
      else throw (TypeError ''Cannot read properties of undefined (reading createQueryBuilder)''))"

definition legacy_cleanup :: "TypeormStore \<Rightarrow> unit io" where
  "legacy_cleanup this =
     (case cleanupLimit this of
        None \<Rightarrow> return_io ()
      | Some n \<Rightarrow>
          if n = 0 then return_io ()
          else
            bind_io (legacy_repository this) (\<lambda>_.
            bind_io Date_now (\<lambda>t.
            bind_io
              (if limitSubquery this then return_io (Subquery t n)
               else
                 bind_io (getMany_expired t n) (\<lambda>xs.
                 return_io
                   (Literal (if length xs > 0 then join (map (\<lambda>x. escape_id (id' x)) xs)
                             else ''NULL''))))
              (\<lambda>ids. bind_io (legacy_repository this) (\<lambda>_. delete_in ids)))))"

subsection \<open>Definitions used in the statements\<close>

text \<open>
  The signal \<^verbatim>\<open>handleError(er)\<close> leaves: the call of the \<^verbatim>\<open>onError\<close> handler when one
  is configured, the \<^verbatim>\<open>"disconnect"\<close> event otherwise.
\<close>

definition error_channel :: "TypeormStore \<Rightarrow> exn \<Rightarrow> signal" where
  "error_channel this e = (case onError this of Some h \<Rightarrow> OnError e | None \<Rightarrow> Emit ''disconnect'' e)"

text \<open>Reading a decimal numeral back, to show that rendering numbers loses nothing.\<close>

definition digit_val :: "char \<Rightarrow> nat" where
  "digit_val c = of_char c - 48"

definition undigits :: "string \<Rightarrow> nat" where
  "undigits s = foldl (\<lambda>a c. 10 * a + digit_val c) 0 s"

subsection \<open>Example stores and environments\<close>

text \<open>
  A connected store with the default options, a session whose cookie lasts 2.5 seconds,
  and a table with a live row, a soft-deleted row and an expired row at time 1000.
\<close>

definition example_store :: TypeormStore where
  "example_store =
     \<lparr>cleanupLimit = None, limitSubquery = True, onError = None, ttl = None, connected = True\<rparr>"

definition example_session :: SessionData where
  "example_session = \<lparr>cookie = Some \<lparr>maxAge = JNumber 2500\<rparr>, content = []\<rparr>"

definition example_rows :: "ISession list" where
  "example_rows =
     [\<lparr>id' = IdString ''A'', json = ''a'', expiredAt = 5000, destroyedAt = None\<rparr>,
      \<lparr>id' = IdString ''B'', json = ''b'', expiredAt = 5000, destroyedAt = Some 900\<rparr>,
      \<lparr>id' = IdString ''C'', json = ''c'', expiredAt = 1000, destroyedAt = None\<rparr>]"

definition example_env :: env where
  "example_env =
     \<lparr>now = 1000, rows = example_rows, faults = (\<lambda>n. None), in_literal = (\<lambda>text i. False),
      JSON_stringify = (\<lambda>s. Inr ''{}''), JSON_parse = (\<lambda>s. Inr example_session),
      issued = [], signals = []\<rparr>"

text \<open>
  An environment whose \<^verbatim>\<open>JSON.stringify\<close> throws, a store that cleans up in enumerated
  mode, and the table at time 500, when no row has expired.
\<close>

definition failing_env :: env where
  "failing_env = example_env\<lparr>JSON_stringify := (\<lambda>s. Inl (SerializationError ''circular structure''))\<rparr>"

definition enumerating_store :: TypeormStore where
  "enumerating_store = example_store\<lparr>cleanupLimit := Some 10, limitSubquery := False\<rparr>"

definition fresh_env :: env where
  "fresh_env = example_env\<lparr>now := 500\<rparr>"

text \<open>A callback that throws on every success result and accepts an error.\<close>

definition throws_on_success :: callback where
  "throws_on_success a =
     (case a of CbError e \<Rightarrow> None | CbAllError e \<Rightarrow> None | _ \<Rightarrow> Some (Thrown ''boom''))"

text \<open>A callback that throws whatever it is called with.\<close>

definition always_throws :: callback where
  "always_throws a = Some (Thrown ''boom'')"

section \<open>Properties\<close>

subsection \<open>The TTL policy\<close>

lemma Math_floor_div_1000_eq: "Math_floor_div_1000 m = m div 1000"
  unfolding Math_floor_div_1000_def
  using floor_divide_of_int_eq [of m 1000, where ?'a = real] by simp

text \<open>
  Claim C3 gives 86400 for every session whose \<^verbatim>\<open>cookie.maxAge\<close> is not numeric. For a
  session with no cookie object and no \<open>ttl\<close> option that is not so: reading
  \<^verbatim>\<open>sess.cookie.maxAge\<close> throws, whatever else the session holds and whatever the sid.
\<close>

theorem getTTL_resolution_counterexample:
  "getTTL \<lparr>cleanupLimit = None, limitSubquery = True, onError = None, ttl = None, connected = True\<rparr>
     \<lparr>cookie = None, content = [(''user'', JString ''u1'')]\<rparr> (Some ''A'')
   = Inl (TypeError ''Cannot read properties of undefined (reading maxAge)'')"
  by (simp add: getTTL_def)

text \<open>
  Claim C3, amended. The resolution order of \<^verbatim>\<open>getTTL\<close>, first match wins: a numeric
  \<open>ttl\<close> option is returned as it is, whatever the cookie says; a function-valued \<open>ttl\<close>
  option is called with the session and the sid and its outcome is the outcome;
  otherwise, for a session with a cookie object, a numeric \<^verbatim>\<open>cookie.maxAge\<close> gives
  \<open>\<lfloor>maxAge / 1000\<rfloor>\<close> and any other \<^verbatim>\<open>maxAge\<close> gives 86400; otherwise, for a session
  with no cookie object, \<^verbatim>\<open>getTTL\<close> throws a \<^verbatim>\<open>TypeError\<close>.
\<close>

theorem getTTL_resolution:
  "(ttl this = Some (TtlNumber n) \<longrightarrow> getTTL this sess sid = Inr n) \<and>
   (ttl this = Some (TtlFunction f) \<longrightarrow> getTTL this sess sid = f sess sid) \<and>
   (ttl this = None \<and> cookie sess = Some c \<and> maxAge c = JNumber m \<longrightarrow>
      getTTL this sess sid = Inr \<lfloor>real_of_int m / 1000\<rfloor>) \<and>
   (ttl this = None \<and> cookie sess = Some c \<and> (\<forall>m. maxAge c \<noteq> JNumber m) \<longrightarrow>
      getTTL this sess sid = Inr 86400) \<and>
   (ttl this = None \<and> cookie sess = None \<longrightarrow>
      getTTL this sess sid = Inl (TypeError ''Cannot read properties of undefined (reading maxAge)''))"
  by (cases "maxAge c") (simp_all add: getTTL_def Math_floor_div_1000_def oneDay_def)

theorem getTTL_resolution_witness:
  "getTTL (example_store\<lparr>ttl := Some (TtlNumber 60)\<rparr>) example_session (Some ''A'') = Inr 60 \<and>
   getTTL (example_store\<lparr>ttl := Some (TtlNumber 60)\<rparr>) \<lparr>cookie = None, content = []\<rparr> (Some ''A'') = Inr 60 \<and>
   getTTL (example_store\<lparr>ttl := Some (TtlFunction (\<lambda>s i. if i = None then Inr 7 else Inr 9))\<rparr>)
     example_session (Some ''A'') = Inr 9 \<and>
   getTTL example_store example_session (Some ''A'') = Inr 2 \<and>
   getTTL example_store \<lparr>cookie = Some \<lparr>maxAge = JUndefined\<rparr>, content = []\<rparr> (Some ''A'') = Inr 86400 \<and>
   getTTL example_store \<lparr>cookie = None, content = []\<rparr> (Some ''A'')
     = Inl (TypeError ''Cannot read properties of undefined (reading maxAge)'')"
  using
    getTTL_resolution [of "example_store\<lparr>ttl := Some (TtlNumber 60)\<rparr>" 60 example_session "Some ''A''"]
    getTTL_resolution [of "example_store\<lparr>ttl := Some (TtlNumber 60)\<rparr>" 60
       "\<lparr>cookie = None, content = []\<rparr>" "Some ''A''"]
    getTTL_resolution [of "example_store\<lparr>ttl := Some (TtlFunction (\<lambda>s i. if i = None then Inr 7 else Inr 9))\<rparr>"
       _ example_session "Some ''A''" "\<lambda>s i. if i = None then Inr 7 else Inr 9"]
    getTTL_resolution [of example_store _ example_session "Some ''A''" _ "\<lparr>maxAge = JNumber 2500\<rparr>" 2500]
    getTTL_resolution [of example_store _ "\<lparr>cookie = Some \<lparr>maxAge = JUndefined\<rparr>, content = []\<rparr>" "Some ''A''" _
       "\<lparr>maxAge = JUndefined\<rparr>"]
    getTTL_resolution [of example_store _ "\<lparr>cookie = None, content = []\<rparr>" "Some ''A''"]
  by (simp add: example_store_def example_session_def)

text \<open>
  Claim C7 speaks of a session with no cookie object at all. There \<^verbatim>\<open>getTTL\<close> does not
  return the default: reading \<^verbatim>\<open>maxAge\<close> of \<^verbatim>\<open>undefined\<close> throws.
\<close>

theorem getTTL_absent_cookie_counterexample:
  "getTTL \<lparr>cleanupLimit = None, limitSubquery = True, onError = None, ttl = None, connected = True\<rparr>
     \<lparr>cookie = None, content = []\<rparr> None
   = Inl (TypeError ''Cannot read properties of undefined (reading maxAge)'')"
  by (simp add: getTTL_def)

text \<open>
  Claim C7, amended. With no \<open>ttl\<close> option, a session whose cookie object is present
  and has no numeric \<^verbatim>\<open>maxAge\<close> gets the default of 86400 seconds; a session without a
  cookie object makes \<^verbatim>\<open>getTTL\<close> throw a \<^verbatim>\<open>TypeError\<close>.
\<close>

theorem getTTL_default_needs_cookie:
  "(ttl this = None \<and> cookie sess = Some c \<and> (\<forall>m. maxAge c \<noteq> JNumber m) \<longrightarrow>
      getTTL this sess sid = Inr 86400) \<and>
   (ttl this = None \<and> cookie sess = None \<longrightarrow>
      getTTL this sess sid = Inl (TypeError ''Cannot read properties of undefined (reading maxAge)''))"
  by (cases "maxAge c") (simp_all add: getTTL_def oneDay_def)

theorem getTTL_default_needs_cookie_witness:
  "getTTL example_store \<lparr>cookie = Some \<lparr>maxAge = JNull\<rparr>, content = []\<rparr> None = Inr 86400 \<and>
   getTTL example_store \<lparr>cookie = None, content = []\<rparr> None
     = Inl (TypeError ''Cannot read properties of undefined (reading maxAge)'')"
  using
    getTTL_default_needs_cookie [of example_store "\<lparr>cookie = Some \<lparr>maxAge = JNull\<rparr>, content = []\<rparr>"
      "\<lparr>maxAge = JNull\<rparr>" None]
    getTTL_default_needs_cookie [of example_store "\<lparr>cookie = None, content = []\<rparr>" _ None]
  by (simp add: example_store_def)

subsection \<open>Escaping ids\<close>

lemma backslash_neq_quote: "backslash \<noteq> quote"
  by (simp add: backslash_def quote_def)

lemma esc_char:
  "replace_quotes (replace_backslashes (c # s)) =
     (if c = backslash then [backslash, backslash]
      else if c = quote then [backslash, quote] else [c]) @ replace_quotes (replace_backslashes s)"
  using backslash_neq_quote by (simp add: replace_quotes_def replace_backslashes_def)

lemma unescape_body_escape:
  "unescape_body (replace_quotes (replace_backslashes s) @ [quote]) = Some s"
proof (induction s)
  case Nil
  show ?case by (simp add: replace_quotes_def replace_backslashes_def)
next
  case (Cons c s)
  show ?case
    using backslash_neq_quote by (simp add: esc_char Cons.IH)
qed

lemma unescape_escape: "unescape (escape_id (IdString s)) = Some s"
  by (simp add: unescape_def escape_id_def unescape_body_escape)

lemma quote_code: "(of_char quote :: nat) = 39"
  by (simp add: quote_def)

lemma minus_code: "(of_char (CHR ''-'') :: nat) = 45"
  by simp

lemma digit_code: "(of_char (digit_char k) :: nat) = (48 + k) mod 256"
  unfolding digit_char_def by (rule of_char_of)

lemma digit_char_neq_quote: "k < 10 \<Longrightarrow> digit_char k \<noteq> quote"
proof
  assume k: "k < 10" and eq: "digit_char k = quote"
  from eq have "(of_char (digit_char k) :: nat) = of_char quote" by (rule arg_cong)
  then have "(48 + k) mod 256 = (39::nat)"
    unfolding digit_code quote_code .
  with k show False by simp
qed

lemma digit_char_neq_minus: "k < 10 \<Longrightarrow> digit_char k \<noteq> CHR ''-''"
proof
  assume k: "k < 10" and eq: "digit_char k = CHR ''-''"
  from eq have "(of_char (digit_char k) :: nat) = of_char (CHR ''-'')" by (rule arg_cong)
  then have "(48 + k) mod 256 = (45::nat)"
    unfolding digit_code minus_code .
  with k show False by simp
qed

lemma digits_chars: "c \<in> set (digits n) \<Longrightarrow> \<exists>k<10. c = digit_char k"
proof (induction n rule: digits.induct)
  case (1 n)
  show ?case
  proof (cases "n < 10")
    case True
    then have "digits n = [digit_char n]" by (subst digits.simps) simp
    with True "1.prems" show ?thesis by auto
  next
    case False
    then have "digits n = digits (n div 10) @ [digit_char (n mod 10)]" by (subst digits.simps) simp
    with False "1.prems" "1.IH" show ?thesis
      by (auto intro: exI [of _ "n mod 10"])
  qed
qed

lemma digits_no_quote: "quote \<notin> set (digits n)"
proof
  assume "quote \<in> set (digits n)"
  then obtain k where k: "k < 10" and q: "quote = digit_char k"
    using digits_chars by blast
  from digit_char_neq_quote [OF k] q show False by (rule notE [OF _ sym])
qed

lemma digits_no_minus: "CHR ''-'' \<notin> set (digits n)"
proof
  assume "CHR ''-'' \<in> set (digits n)"
  then obtain k where k: "k < 10" and q: "CHR ''-'' = digit_char k"
    using digits_chars by blast
  from digit_char_neq_minus [OF k] q show False by (rule notE [OF _ sym])
qed

lemma minus_neq_quote: "CHR ''-'' \<noteq> quote"
  by (simp add: quote_def)

lemma number_to_string_no_quote: "quote \<notin> set (number_to_string n)"
  using minus_neq_quote by (auto simp add: number_to_string_def digits_no_quote)

lemma digit_val_digit_char: "k < 10 \<Longrightarrow> digit_val (digit_char k) = k"
  unfolding digit_val_def digit_code by simp

lemma undigits_digits: "undigits (digits n) = n"
proof (induction n rule: digits.induct)
  case (1 n)
  show ?case
  proof (cases "n < 10")
    case True
    then have "digits n = [digit_char n]" by (subst digits.simps) simp
    with True show ?thesis by (simp add: undigits_def digit_val_digit_char)
  next
    case False
    then have d: "digits n = digits (n div 10) @ [digit_char (n mod 10)]" by (subst digits.simps) simp
    have "undigits (digits n) = 10 * undigits (digits (n div 10)) + digit_val (digit_char (n mod 10))"
      unfolding d undigits_def by simp
    also have "\<dots> = 10 * (n div 10) + n mod 10"
      using False "1.IH" by (simp add: digit_val_digit_char)
    finally show ?thesis by simp
  qed
qed

lemma digits_inj: "digits n = digits m \<Longrightarrow> n = m"
proof -
  assume "digits n = digits m"
  then have "undigits (digits n) = undigits (digits m)" by (rule arg_cong)
  then show "n = m" unfolding undigits_digits .
qed

lemma number_to_string_inj: "number_to_string i = number_to_string j \<Longrightarrow> i = j"
proof -
  assume eq: "number_to_string i = number_to_string j"
  have neg_pos: "\<And>a b. CHR ''-'' # digits a \<noteq> digits b"
  proof
    fix a b assume "CHR ''-'' # digits a = digits b"
    then have "CHR ''-'' \<in> set (digits b)" by (metis list.set_intros(1))
    then show False using digits_no_minus by simp
  qed
  show "i = j"
  proof (cases "i < 0")
    case True
    show ?thesis
    proof (cases "j < 0")
      case True
      with \<open>i < 0\<close> eq have "nat (- i) = nat (- j)"
        by (simp add: number_to_string_def digits_inj)
      with True \<open>i < 0\<close> show ?thesis by simp
    next
      case False
      with \<open>i < 0\<close> eq neg_pos show ?thesis by (simp add: number_to_string_def)
    qed
  next
    case False
    show ?thesis
    proof (cases "j < 0")
      case True
      with False eq neg_pos [of "nat (- j)" "nat i"] show ?thesis
        by (simp add: number_to_string_def)
    next
      case nj: False
      with False eq have "nat i = nat j"
        by (simp add: number_to_string_def digits_inj)
      with False nj show ?thesis by simp
    qed
  qed
qed

lemma escape_id_inj: "escape_id x = escape_id y \<Longrightarrow> x = y"
proof (cases x; cases y)
  fix s s' assume xy: "x = IdString s" "y = IdString s'" and eq: "escape_id x = escape_id y"
  then have "unescape (escape_id (IdString s)) = unescape (escape_id (IdString s'))" by simp
  then show "x = y" using xy by (simp add: unescape_escape)
next
  fix s n assume xy: "x = IdString s" "y = IdNumber n" and eq: "escape_id x = escape_id y"
  have "quote \<in> set (escape_id (IdString s))" by (simp add: escape_id_def)
  with xy eq have "quote \<in> set (escape_id (IdNumber n))" by simp
  then show "x = y" using number_to_string_no_quote by (simp add: escape_id_def)
next
  fix n s assume xy: "x = IdNumber n" "y = IdString s" and eq: "escape_id x = escape_id y"
  have "quote \<in> set (escape_id (IdString s))" by (simp add: escape_id_def)
  with xy eq have "quote \<in> set (escape_id (IdNumber n))" by simp
  then show "x = y" using number_to_string_no_quote by (simp add: escape_id_def)
next
  fix n m assume xy: "x = IdNumber n" "y = IdNumber m" and eq: "escape_id x = escape_id y"
  then show "x = y" by (simp add: escape_id_def number_to_string_inj)
qed

text \<open>
  Claim C9. The literal made of a string id reads back as that id under the
  backslash reader; two ids (strings or numbers) with the same rendering are the same
  id; a numeric id is rendered as its decimal numeral, with no quote in it.
\<close>

theorem escape_id_roundtrip:
  "unescape (escape_id (IdString s)) = Some s \<and>
   (escape_id x = escape_id y) = (x = y) \<and>
   escape_id (IdNumber n) = number_to_string n \<and>
   quote \<notin> set (escape_id (IdNumber n))"
proof -
  have a: "unescape (escape_id (IdString s)) = Some s" by (rule unescape_escape)
  have b: "(escape_id x = escape_id y) = (x = y)" using escape_id_inj by blast
  have c: "escape_id (IdNumber n) = number_to_string n" by (simp add: escape_id_def)
  have d: "quote \<notin> set (escape_id (IdNumber n))" unfolding c by (rule number_to_string_no_quote)
  from a b c d show ?thesis by blast
qed

subsection \<open>The monad, the callbacks and the error handler\<close>

lemmas io_defs = return_io_def throw_def lift_def bind_io_def try_catch_def Date_now_def
  invoke_def invoke_opt_def issue_def getRepository_def

lemma invoke_opt_frame:
  "rows (snd (invoke_opt cb a w)) = rows w"
  "issued (snd (invoke_opt cb a w)) = issued w"
  by (simp_all add: invoke_opt_def invoke_def return_io_def Let_def split: option.splits)

lemma handleError_frame:
  "rows (snd (handleError this e w)) = rows w"
  "issued (snd (handleError this e w)) = issued w"
  "signals (snd (handleError this e w)) = signals w @ [error_channel this e]"
  by (simp_all add: handleError_def error_channel_def Let_def split: option.splits)

lemma on_catch_eval:
  "on_catch this cbo mk e w =
     (case cbo of
        None \<Rightarrow> handleError this e w
      | Some cb \<Rightarrow>
          (case cb (mk e) of
             None \<Rightarrow> handleError this e (w\<lparr>signals := signals w @ [Callback (mk e)]\<rparr>)
           | Some e' \<Rightarrow> (Inl e', w\<lparr>signals := signals w @ [Callback (mk e)]\<rparr>)))"
  by (simp add: on_catch_def io_defs Let_def split: option.splits)

lemma on_catch_frame:
  "rows (snd (on_catch this cb mk e w)) = rows w"
  "issued (snd (on_catch this cb mk e w)) = issued w"
  by (simp_all add: on_catch_eval handleError_frame split: option.splits)

lemma on_catch_signals:
  "signals (snd (on_catch this cbo mk e w)) =
     signals w @ (case cbo of None \<Rightarrow> [] | Some cb \<Rightarrow> [Callback (mk e)]) @
       (if (\<forall>cb. cbo = Some cb \<longrightarrow> cb (mk e) = None) then [error_channel this e] else [])"
  by (simp add: on_catch_eval handleError_frame split: option.splits)

subsection \<open>touch\<close>

lemma touch_try_eval:
  "touch_try this sid session callback w =
     (case getTTL this session None of
        Inl e \<Rightarrow> (Inl e, w)
      | Inr t \<Rightarrow>
          if \<not> connected this then (Inl NotConnected, w)
          else
            (case faults w (length (issued w)) of
               Some e \<Rightarrow> (Inl e, w\<lparr>issued := issued w @ [UpdateExpiry sid (now w + t * 1000)]\<rparr>)
             | None \<Rightarrow>
                 invoke_opt callback CbDone
                   (w\<lparr>issued := issued w @ [UpdateExpiry sid (now w + t * 1000)],
                      rows := map (\<lambda>r. if id' r = IdString sid
                                         then r\<lparr>expiredAt := now w + t * 1000\<rparr> else r) (rows w)\<rparr>)))"
  by (simp add: touch_try_def update_expiry_def io_defs Let_def split: sum.splits option.splits)

lemma touch_frame:
  "rows (snd (touch this sid session callback w)) = rows (snd (touch_try this sid session callback w))"
  "issued (snd (touch this sid session callback w)) = issued (snd (touch_try this sid session callback w))"
  by (simp_all add: touch_def try_catch_def on_catch_frame split: prod.splits sum.splits)

lemma map_upd_expiry:
  "map id' (map (\<lambda>r. if id' r = i then r\<lparr>expiredAt := e\<rparr> else r) rs) = map id' rs"
  "map json (map (\<lambda>r. if id' r = i then r\<lparr>expiredAt := e\<rparr> else r) rs) = map json rs"
  "map destroyedAt (map (\<lambda>r. if id' r = i then r\<lparr>expiredAt := e\<rparr> else r) rs) = map destroyedAt rs"
  by (induction rs) simp_all

text \<open>
  Claim C8. \<^verbatim>\<open>touch\<close> never changes the ids, the payloads or the soft-delete marks of
  the table. On a connected store whose update statement succeeds it sets \<open>expiredAt\<close>
  to \<open>now + ttl * 1000\<close> in every row with the given id, soft-deleted or not (the
  update is keyed on the id alone), and issues that one statement. The ttl is
  \<^verbatim>\<open>getTTL(session)\<close>: a function-valued \<open>ttl\<close> option is called without a sid.
\<close>

theorem touch_updates_expiry_only:
  "map id' (rows (snd (touch this sid session callback w))) = map id' (rows w) \<and>
   map json (rows (snd (touch this sid session callback w))) = map json (rows w) \<and>
   map destroyedAt (rows (snd (touch this sid session callback w))) = map destroyedAt (rows w) \<and>
   (connected this \<and> getTTL this session None = Inr t \<and> faults w (length (issued w)) = None \<longrightarrow>
      rows (snd (touch this sid session callback w)) =
        map (\<lambda>r. if id' r = IdString sid then r\<lparr>expiredAt := now w + t * 1000\<rparr> else r) (rows w) \<and>
      issued (snd (touch this sid session callback w)) =
        issued w @ [UpdateExpiry sid (now w + t * 1000)]) \<and>
   (ttl this = Some (TtlFunction f) \<longrightarrow> getTTL this session None = f session None)"
  by (simp add: touch_frame touch_try_eval invoke_opt_frame map_upd_expiry getTTL_def
      split: sum.splits option.splits)

theorem touch_updates_expiry_only_witness:
  "connected example_store \<and> getTTL example_store example_session None = Inr 2 \<and>
   faults example_env (length (issued example_env)) = None \<and>
   rows (snd (touch example_store ''B'' example_session None example_env)) =
     [\<lparr>id' = IdString ''A'', json = ''a'', expiredAt = 5000, destroyedAt = None\<rparr>,
      \<lparr>id' = IdString ''B'', json = ''b'', expiredAt = 3000, destroyedAt = Some 900\<rparr>,
      \<lparr>id' = IdString ''C'', json = ''c'', expiredAt = 1000, destroyedAt = None\<rparr>] \<and>
   issued (snd (touch example_store ''B'' example_session None example_env)) = [UpdateExpiry ''B'' 3000]"
  using touch_updates_expiry_only [of example_store "''B''" example_session None example_env 2]
  by (simp add: example_store_def example_session_def example_env_def example_rows_def
      getTTL_def Math_floor_div_1000_eq)

subsection \<open>set: a payload that does not serialize\<close>

lemma set_try_stringify_fails:
  "JSON_stringify w session = Inl er \<Longrightarrow>
   set_try this sid session callback w =
     (if connected this then invoke_opt callback (CbError er) w else (Inl NotConnected, w))"
  by (simp add: set_try_def io_defs)

lemma set_frame:
  "rows (snd (set' this sid session callback w)) = rows (snd (set_try this sid session callback w))"
  "issued (snd (set' this sid session callback w)) = issued (snd (set_try this sid session callback w))"
  by (simp_all add: set'_def try_catch_def on_catch_frame split: prod.splits sum.splits)

text \<open>
  Claim C6. When \<^verbatim>\<open>JSON.stringify\<close> throws, \<^verbatim>\<open>set\<close> issues no statement and leaves
  the table as it was, whatever the store and the callback are. On a connected store the
  callback is called with the serialization error first, and if it returns normally that
  call is all that happens.
\<close>

theorem set_serialization_failure:
  assumes "JSON_stringify w session = Inl er"
  shows "issued (snd (set' this sid session callback w)) = issued w \<and>
         rows (snd (set' this sid session callback w)) = rows w \<and>
         (connected this \<and> callback = Some cb \<longrightarrow>
            take (Suc (length (signals w))) (signals (snd (set' this sid session callback w)))
              = signals w @ [Callback (CbError er)]) \<and>
         (connected this \<and> callback = Some cb \<and> cb (CbError er) = None \<longrightarrow>
            set' this sid session callback w
              = (Inr (), w\<lparr>signals := signals w @ [Callback (CbError er)]\<rparr>))"
proof -
  have fr: "issued (snd (set' this sid session callback w)) = issued w"
           "rows (snd (set' this sid session callback w)) = rows w"
    using assms by (simp_all add: set_frame set_try_stringify_fails invoke_opt_frame)
  have sig: "connected this \<and> callback = Some cb \<longrightarrow>
            take (Suc (length (signals w))) (signals (snd (set' this sid session callback w)))
              = signals w @ [Callback (CbError er)]"
    using assms
    by (simp add: set'_def try_catch_def set_try_stringify_fails invoke_opt_def invoke_def
        on_catch_signals Let_def split: option.splits)
  have ok: "connected this \<and> callback = Some cb \<and> cb (CbError er) = None \<longrightarrow>
            set' this sid session callback w
              = (Inr (), w\<lparr>signals := signals w @ [Callback (CbError er)]\<rparr>)"
    using assms
    by (simp add: set'_def try_catch_def set_try_stringify_fails invoke_opt_def invoke_def Let_def)
  from fr sig ok show ?thesis by blast
qed

theorem set_serialization_failure_witness:
  "JSON_stringify failing_env example_session = Inl (SerializationError ''circular structure'') \<and>
   issued (snd (set' example_store ''A'' example_session (Some (\<lambda>a. None)) failing_env)) = [] \<and>
   rows (snd (set' example_store ''A'' example_session (Some (\<lambda>a. None)) failing_env)) = example_rows \<and>
   set' example_store ''A'' example_session (Some (\<lambda>a. None)) failing_env =
     (Inr (), failing_env\<lparr>signals := [Callback (CbError (SerializationError ''circular structure''))]\<rparr>)"
  using set_serialization_failure [of failing_env example_session "SerializationError ''circular structure''"
      example_store "''A''" "Some (\<lambda>a. None)" "\<lambda>a. None"]
  by (simp add: failing_env_def example_env_def example_store_def)

subsection \<open>cleanup\<close>

lemma getMany_expired_eval:
  "getMany_expired t n w =
     (case faults w (length (issued w)) of
        Some e \<Rightarrow> (Inl e, w\<lparr>issued := issued w @ [SelectExpired t n]\<rparr>)
      | None \<Rightarrow> (Inr (candidates t n (rows w)), w\<lparr>issued := issued w @ [SelectExpired t n]\<rparr>))"
  by (simp add: getMany_expired_def io_defs Let_def split: option.splits)

lemma cleanup_no_candidates:
  assumes "\<not> limitSubquery this" and "cleanupLimit this = Some n" and "0 < n"
    and "candidates (now w) n (rows w) = []"
  shows "issued (snd (cleanup this w)) =
           issued w @ (if connected this then [SelectExpired (now w) n] else [])"
    and "rows (snd (cleanup this w)) = rows w"
  using assms
  by (simp_all add: cleanup_def getMany_expired_eval falsy_def
      return_io_def throw_def bind_io_def Date_now_def getRepository_def
      split: option.splits)

lemma legacy_cleanup_no_candidates:
  assumes "\<not> limitSubquery this" and "cleanupLimit this = Some n" and "0 < n"
    and "connected this" and "faults w (length (issued w)) = None"
    and "candidates (now w) n (rows w) = []"
  shows "issued (snd (legacy_cleanup this w)) =
           issued w @ [SelectExpired (now w) n, Delete (Literal ''NULL'')]"
  using assms
  by (simp add: legacy_cleanup_def legacy_repository_def getMany_expired_eval delete_in_def
      io_defs Let_def split: option.splits)

text \<open>
  Claim C4 says that with no candidate no delete statement is issued at all, not even
  one with a degenerate list. That holds of \<^verbatim>\<open>cleanup()\<close>, but not of the cleanup in
  the legacy copy of \<^verbatim>\<open>set\<close>: there \<^verbatim>\<open>ids\<close> is still \<^verbatim>\<open>"NULL"\<close> and the delete goes out.
\<close>

theorem legacy_cleanup_sends_null_counterexample:
  "issued (snd (legacy_cleanup
      \<lparr>cleanupLimit = Some 10, limitSubquery = False, onError = None, ttl = None, connected = True\<rparr>
      \<lparr>now = 500,
        rows = [\<lparr>id' = IdString ''A'', json = ''a'', expiredAt = 5000, destroyedAt = None\<rparr>],
        faults = (\<lambda>n. None), in_literal = (\<lambda>text i. False),
        JSON_stringify = (\<lambda>s. Inr ''{}''), JSON_parse = (\<lambda>s. Inl (SerializationError ''unused'')),
        issued = [], signals = []\<rparr>))
   = [SelectExpired 500 10, Delete (Literal ''NULL'')]"
  by (simp add: legacy_cleanup_def legacy_repository_def getMany_expired_def delete_in_def
      candidates_def io_defs)

text \<open>
  Claim C4, amended. In enumerated mode with a positive limit, when the candidate
  select finds no row: \<^verbatim>\<open>cleanup()\<close> issues that select and nothing else (nothing at
  all on a store that is not connected), so no delete statement is among the statements
  it issues, and the table is unchanged; the cleanup of the legacy copy, on a connected
  store whose select succeeds, issues the select and then one delete, whose list is the
  literal \<^verbatim>\<open>NULL\<close>.
\<close>

theorem cleanup_enumerated_no_candidates:
  assumes "\<not> limitSubquery this" and "cleanupLimit this = Some n" and "0 < n"
    and "candidates (now w) n (rows w) = []"
  shows "issued (snd (cleanup this w)) =
           issued w @ (if connected this then [SelectExpired (now w) n] else []) \<and>
         (\<forall>l. Delete l \<notin> set (drop (length (issued w)) (issued (snd (cleanup this w))))) \<and>
         rows (snd (cleanup this w)) = rows w \<and>
         (connected this \<and> faults w (length (issued w)) = None \<longrightarrow>
            issued (snd (legacy_cleanup this w)) =
              issued w @ [SelectExpired (now w) n, Delete (Literal ''NULL'')])"
proof -
  note c = cleanup_no_candidates [OF assms]
  have l: "connected this \<and> faults w (length (issued w)) = None \<longrightarrow>
            issued (snd (legacy_cleanup this w)) =
              issued w @ [SelectExpired (now w) n, Delete (Literal ''NULL'')]"
    using assms by (simp add: legacy_cleanup_no_candidates)
  from c l show ?thesis by simp
qed

theorem cleanup_enumerated_no_candidates_witness:
  "\<not> limitSubquery enumerating_store \<and> cleanupLimit enumerating_store = Some 10 \<and> (0::int) < 10 \<and>
   candidates (now fresh_env) 10 (rows fresh_env) = [] \<and>
   issued (snd (cleanup enumerating_store fresh_env)) = [SelectExpired 500 10] \<and>
   rows (snd (cleanup enumerating_store fresh_env)) = example_rows \<and>
   issued (snd (legacy_cleanup enumerating_store fresh_env)) =
     [SelectExpired 500 10, Delete (Literal ''NULL'')]"
  using cleanup_enumerated_no_candidates [of enumerating_store 10 fresh_env]
  by (simp add: enumerating_store_def fresh_env_def example_store_def example_env_def
      example_rows_def candidates_def)

subsection \<open>set: lookup, update, insert\<close>

lemma insert_row_issued:
  "issued (snd (insert_row sid e j w)) = issued w @ [Insert sid e j]"
  by (simp add: insert_row_def io_defs Let_def split: option.splits)

lemma insert_row_rows:
  "rows (snd (insert_row sid e j w)) =
     (if faults w (length (issued w)) = None \<and> \<not> (\<exists>r \<in> set (rows w). id' r = IdString sid)
      then rows w @ [\<lparr>id' = IdString sid, json = j, expiredAt = e, destroyedAt = None\<rparr>]
      else rows w)"
  by (simp add: insert_row_def io_defs Let_def split: option.splits)

lemma findOneOrFail_eval:
  "findOneOrFail sid w =
     (case faults w (length (issued w)) of
        Some e \<Rightarrow> (Inl e, w\<lparr>issued := issued w @ [FindOneOrFail sid]\<rparr>)
      | None \<Rightarrow>
          (case find (\<lambda>r. id' r = IdString sid) (rows w) of
             None \<Rightarrow> (Inl EntityNotFound, w\<lparr>issued := issued w @ [FindOneOrFail sid]\<rparr>)
           | Some r \<Rightarrow> (Inr r, w\<lparr>issued := issued w @ [FindOneOrFail sid]\<rparr>)))"
  by (simp add: findOneOrFail_def io_defs Let_def split: option.splits)

lemma update_eval:
  "update sid e j w =
     (case faults w (length (issued w)) of
        Some x \<Rightarrow> (Inl x, w\<lparr>issued := issued w @ [Update sid e j]\<rparr>)
      | None \<Rightarrow>
          (Inr (), w\<lparr>issued := issued w @ [Update sid e j],
                      rows := map (\<lambda>r. if id' r = IdString sid \<and> destroyedAt r = None
                                         then r\<lparr>json := j, expiredAt := e\<rparr> else r) (rows w)\<rparr>))"
  by (simp add: update_def io_defs Let_def split: option.splits)

text \<open>What the inner \<^verbatim>\<open>try\<close>/\<^verbatim>\<open>catch\<close> of \<^verbatim>\<open>set\<close> does, case by case.\<close>

lemma upsert_eval:
  "upsert sid j t w =
     (if faults w (length (issued w)) = None \<and> (\<exists>r \<in> set (rows w). id' r = IdString sid)
      then
        (case faults w (Suc (length (issued w))) of
           None \<Rightarrow>
             (Inr (), w\<lparr>issued := issued w @ [FindOneOrFail sid, Update sid (now w + t * 1000) j],
                         rows := map (\<lambda>r. if id' r = IdString sid \<and> destroyedAt r = None
                                            then r\<lparr>json := j, expiredAt := now w + t * 1000\<rparr> else r)
                                     (rows w)\<rparr>)
         | Some x \<Rightarrow>
             insert_row sid (now w + t * 1000) j
               (w\<lparr>issued := issued w @ [FindOneOrFail sid, Update sid (now w + t * 1000) j]\<rparr>))
      else
        insert_row sid (now w + t * 1000) j (w\<lparr>issued := issued w @ [FindOneOrFail sid]\<rparr>))"
proof (cases "find (\<lambda>r. id' r = IdString sid) (rows w)")
  case None
  then have "\<not> (\<exists>r \<in> set (rows w). id' r = IdString sid)"
    by (simp add: find_None_iff)
  with None show ?thesis
    by (simp add: upsert_def try_catch_def bind_io_def Date_now_def findOneOrFail_eval
        split: option.splits)
next
  case (Some r)
  then obtain i where "i < length (rows w)" and "id' (rows w ! i) = IdString sid"
    by (auto simp add: find_Some_iff)
  then have "\<exists>r \<in> set (rows w). id' r = IdString sid"
    using nth_mem by blast
  with Some show ?thesis
    by (simp add: upsert_def try_catch_def bind_io_def Date_now_def findOneOrFail_eval update_eval
        split: option.splits)
qed

lemma upsert_issued:
  "issued (snd (upsert sid j t w)) =
     issued w @ FindOneOrFail sid #
       (if faults w (length (issued w)) = None \<and> (\<exists>r \<in> set (rows w). id' r = IdString sid)
        then (if faults w (Suc (length (issued w))) = None
              then [Update sid (now w + t * 1000) j]
              else [Update sid (now w + t * 1000) j, Insert sid (now w + t * 1000) j])
        else [Insert sid (now w + t * 1000) j])"
  by (simp add: upsert_eval insert_row_issued split: option.splits)

lemma set_try_upsert:
  assumes "connected this" and "JSON_stringify w session = Inr j"
    and "getTTL this session (Some sid) = Inr t" and "cleanup this w = (Inr (), w1)"
  shows "set_try this sid session callback w =
           bind_io (upsert sid j t) (\<lambda>_. invoke_opt callback CbDone) w1"
  using assms by (simp add: set_try_def getRepository_def return_io_def lift_def bind_io_def)

lemma bind_invoke_opt_frame:
  "issued (snd (bind_io m (\<lambda>_. invoke_opt cb a) w)) = issued (snd (m w))"
  "rows (snd (bind_io m (\<lambda>_. invoke_opt cb a) w)) = rows (snd (m w))"
  by (simp_all add: bind_io_def invoke_opt_frame split: prod.splits sum.splits)

text \<open>
  Claim C1 says that once the lookup has succeeded \<^verbatim>\<open>set\<close> never inserts. It does when
  the update throws: the \<^verbatim>\<open>catch (_)\<close> of the inner \<^verbatim>\<open>try\<close> covers the update as well
  as the lookup. Here the row exists, the update (the second statement) fails, and an
  insert is issued.
\<close>

theorem set_insert_after_lookup_counterexample:
  "issued (snd (set'
      \<lparr>cleanupLimit = None, limitSubquery = True, onError = None, ttl = Some (TtlNumber 60), connected = True\<rparr>
      ''A'' \<lparr>cookie = Some \<lparr>maxAge = JNumber 2500\<rparr>, content = []\<rparr> None
      \<lparr>now = 1000,
        rows = [\<lparr>id' = IdString ''A'', json = ''a'', expiredAt = 5000, destroyedAt = None\<rparr>],
        faults = (\<lambda>n. if n = 1 then Some (StorageError ''deadlock'') else None),
        in_literal = (\<lambda>text i. False),
        JSON_stringify = (\<lambda>s. Inr ''{}''), JSON_parse = (\<lambda>s. Inl (SerializationError ''unused'')),
        issued = [], signals = []\<rparr>))
   = [FindOneOrFail ''A'', Update ''A'' 61000 ''{}'', Insert ''A'' 61000 ''{}'']"
  by (simp add: set'_def set_try_def upsert_def cleanup_def on_catch_def handleError_def
      findOneOrFail_def update_def insert_row_def getTTL_def io_defs)

text \<open>
  Claim C1, amended. On a connected store, once the payload is serialized, the ttl is
  computed and \<^verbatim>\<open>cleanup\<close> has returned, \<^verbatim>\<open>set\<close> issues the lookup by id (soft-deleted
  rows included) first. If the lookup succeeds it issues the update of the rows with
  that id and \<^verbatim>\<open>destroyedAt IS NULL\<close>; if the update completes nothing is inserted, even
  when no row matched, and only the matching rows change. The insert of
  \<open>(id, json, now + ttl * 1000)\<close> is issued when the lookup fails (no row, or the
  statement failed), and also when the lookup succeeded and the update itself failed.
\<close>

theorem set_upsert_protocol:
  assumes "connected this" and "JSON_stringify w session = Inr j"
    and "getTTL this session (Some sid) = Inr t" and "cleanup this w = (Inr (), w1)"
  shows "issued (snd (set' this sid session callback w)) =
           issued w1 @ FindOneOrFail sid #
             (if faults w1 (length (issued w1)) = None \<and> (\<exists>r \<in> set (rows w1). id' r = IdString sid)
              then (if faults w1 (Suc (length (issued w1))) = None
                    then [Update sid (now w1 + t * 1000) j]
                    else [Update sid (now w1 + t * 1000) j, Insert sid (now w1 + t * 1000) j])
              else [Insert sid (now w1 + t * 1000) j]) \<and>
         (faults w1 (length (issued w1)) = None \<and> (\<exists>r \<in> set (rows w1). id' r = IdString sid) \<and>
          faults w1 (Suc (length (issued w1))) = None \<longrightarrow>
            rows (snd (set' this sid session callback w)) =
              map (\<lambda>r. if id' r = IdString sid \<and> destroyedAt r = None
                        then r\<lparr>json := j, expiredAt := now w1 + t * 1000\<rparr> else r) (rows w1)) \<and>
         (faults w1 (length (issued w1)) = None \<and> \<not> (\<exists>r \<in> set (rows w1). id' r = IdString sid) \<and>
          faults w1 (Suc (length (issued w1))) = None \<longrightarrow>
            rows (snd (set' this sid session callback w)) =
              rows w1 @ [\<lparr>id' = IdString sid, json = j, expiredAt = now w1 + t * 1000, destroyedAt = None\<rparr>])"
proof -
  have i: "issued (snd (set' this sid session callback w)) = issued (snd (upsert sid j t w1))"
    unfolding set_frame set_try_upsert [OF assms] bind_invoke_opt_frame ..
  have r: "rows (snd (set' this sid session callback w)) = rows (snd (upsert sid j t w1))"
    unfolding set_frame set_try_upsert [OF assms] bind_invoke_opt_frame ..
  have a: "issued (snd (upsert sid j t w1)) =
           issued w1 @ FindOneOrFail sid #
             (if faults w1 (length (issued w1)) = None \<and> (\<exists>r \<in> set (rows w1). id' r = IdString sid)
              then (if faults w1 (Suc (length (issued w1))) = None
                    then [Update sid (now w1 + t * 1000) j]
                    else [Update sid (now w1 + t * 1000) j, Insert sid (now w1 + t * 1000) j])
              else [Insert sid (now w1 + t * 1000) j])"
    by (rule upsert_issued)
  have b: "faults w1 (length (issued w1)) = None \<and> (\<exists>r \<in> set (rows w1). id' r = IdString sid) \<and>
          faults w1 (Suc (length (issued w1))) = None \<longrightarrow>
            rows (snd (upsert sid j t w1)) =
              map (\<lambda>r. if id' r = IdString sid \<and> destroyedAt r = None
                        then r\<lparr>json := j, expiredAt := now w1 + t * 1000\<rparr> else r) (rows w1)"
    by (simp add: upsert_eval)
  have c: "faults w1 (length (issued w1)) = None \<and> \<not> (\<exists>r \<in> set (rows w1). id' r = IdString sid) \<and>
          faults w1 (Suc (length (issued w1))) = None \<longrightarrow>
            rows (snd (upsert sid j t w1)) =
              rows w1 @ [\<lparr>id' = IdString sid, json = j, expiredAt = now w1 + t * 1000, destroyedAt = None\<rparr>]"
    by (simp add: upsert_eval insert_row_rows)
  from a b c show ?thesis
    unfolding i r by blast
qed

theorem set_upsert_protocol_witness:
  "connected example_store \<and> JSON_stringify example_env example_session = Inr ''{}'' \<and>
   getTTL example_store example_session (Some ''B'') = Inr 2 \<and>
   cleanup example_store example_env = (Inr (), example_env) \<and>
   issued (snd (set' example_store ''B'' example_session None example_env)) =
     [FindOneOrFail ''B'', Update ''B'' 3000 ''{}''] \<and>
   rows (snd (set' example_store ''B'' example_session None example_env)) = example_rows \<and>
   issued (snd (set' example_store ''D'' example_session None example_env)) =
     [FindOneOrFail ''D'', Insert ''D'' 3000 ''{}'']"
  using
    set_upsert_protocol [of example_store example_env example_session "''{}''" "''B''" 2 example_env None]
    set_upsert_protocol [of example_store example_env example_session "''{}''" "''D''" 2 example_env None]
  by (simp add: example_store_def example_env_def example_session_def example_rows_def
      getTTL_def Math_floor_div_1000_eq cleanup_def return_io_def)

subsection \<open>get and all: the records a read returns\<close>

lemma createQueryBuilder_eval:
  "createQueryBuilder this w =
     (if connected this then (Inr \<lparr>expiredAfter = now w, idEquals = None\<rparr>, w)
      else (Inl NotConnected, w))"
  by (simp add: createQueryBuilder_def io_defs)

lemma getOne_eval:
  "getOne q w =
     (case faults w (length (issued w)) of
        Some e \<Rightarrow> (Inl e, w\<lparr>issued := issued w @ [SelectOne q]\<rparr>)
      | None \<Rightarrow> (Inr (find (matches q) (rows w)), w\<lparr>issued := issued w @ [SelectOne q]\<rparr>))"
  by (simp add: getOne_def io_defs Let_def split: option.splits)

lemma getMany_eval:
  "getMany q w =
     (case faults w (length (issued w)) of
        Some e \<Rightarrow> (Inl e, w\<lparr>issued := issued w @ [SelectMany q]\<rparr>)
      | None \<Rightarrow> (Inr (filter (matches q) (rows w)), w\<lparr>issued := issued w @ [SelectMany q]\<rparr>))"
  by (simp add: getMany_def io_defs Let_def split: option.splits)

lemma get_try_eval:
  "get_try this sid callback w =
     (if \<not> connected this then (Inl NotConnected, w)
      else
        (case faults w (length (issued w)) of
           Some e \<Rightarrow>
             (Inl e, w\<lparr>issued := issued w @ [SelectOne \<lparr>expiredAfter = now w, idEquals = Some sid\<rparr>]\<rparr>)
         | None \<Rightarrow>
             (case find (matches \<lparr>expiredAfter = now w, idEquals = Some sid\<rparr>) (rows w) of
                None \<Rightarrow>
                  invoke callback CbDone
                    (w\<lparr>issued := issued w @ [SelectOne \<lparr>expiredAfter = now w, idEquals = Some sid\<rparr>]\<rparr>)
              | Some s \<Rightarrow>
                  (case JSON_parse w (json s) of
                     Inl e \<Rightarrow>
                       (Inl e, w\<lparr>issued := issued w @ [SelectOne \<lparr>expiredAfter = now w, idEquals = Some sid\<rparr>]\<rparr>)
                   | Inr d \<Rightarrow>
                       invoke callback (CbResult d)
                         (w\<lparr>issued := issued w @ [SelectOne \<lparr>expiredAfter = now w, idEquals = Some sid\<rparr>]\<rparr>)))))"
  by (simp add: get_try_def createQueryBuilder_eval getOne_eval bind_io_def lift_def
      split: option.splits sum.splits)

lemma all_try_eval:
  "all_try this callback w =
     (if \<not> connected this then (Inl NotConnected, w)
      else
        (case faults w (length (issued w)) of
           Some e \<Rightarrow>
             (Inl e, w\<lparr>issued := issued w @ [SelectMany \<lparr>expiredAfter = now w, idEquals = None\<rparr>]\<rparr>)
         | None \<Rightarrow>
             (case parse_rows (JSON_parse w)
                     (filter (matches \<lparr>expiredAfter = now w, idEquals = None\<rparr>) (rows w)) of
                Inl e \<Rightarrow>
                  (Inl e, w\<lparr>issued := issued w @ [SelectMany \<lparr>expiredAfter = now w, idEquals = None\<rparr>]\<rparr>)
              | Inr res \<Rightarrow>
                  invoke callback (CbAll res)
                    (w\<lparr>issued := issued w @ [SelectMany \<lparr>expiredAfter = now w, idEquals = None\<rparr>]\<rparr>))))"
  by (simp add: all_try_def createQueryBuilder_eval getMany_eval bind_io_def lift_def
      split: option.splits sum.splits)








subsection \<open>Signals are left alone by the repository\<close>

lemma softDelete_signals: "signals (snd (softDelete x w)) = signals w"
  by (simp add: softDelete_def io_defs Let_def split: option.splits)

lemma softDelete_all_signals: "signals (snd (softDelete_all xs w)) = signals w"
proof (induction xs arbitrary: w)
  case Nil
  show ?case by simp
next
  case (Cons x xs)
  obtain r w1 where s: "softDelete x w = (r, w1)" by (cases "softDelete x w")
  then have "signals w1 = signals w" using softDelete_signals [of x w] by simp
  with s Cons.IH [of w1] show ?case by (cases r) simp_all
qed

lemma Promise_all_softDelete_signals: "signals (snd (Promise_all_softDelete xs w)) = signals w"
proof -
  obtain r w' where s: "softDelete_all xs w = (r, w')" by (cases "softDelete_all xs w")
  then have "signals w' = signals w" using softDelete_all_signals [of xs w] by simp
  with s show ?thesis by (cases r) (simp_all add: Promise_all_softDelete_def)
qed

lemma insert_row_signals: "signals (snd (insert_row sid e j w)) = signals w"
  by (simp add: insert_row_def io_defs Let_def split: option.splits)

lemma upsert_signals: "signals (snd (upsert sid j t w)) = signals w"
  by (simp add: upsert_eval insert_row_signals split: option.splits)

lemma delete_in_signals: "signals (snd (delete_in l w)) = signals w"
  by (simp add: delete_in_def io_defs Let_def split: option.splits)

lemma cleanup_signals: "signals (snd (cleanup this w)) = signals w"
  by (simp add: cleanup_def getMany_expired_eval delete_in_signals falsy_def
      return_io_def throw_def bind_io_def Date_now_def getRepository_def
      split: option.splits in_list.splits)

subsection \<open>Where failures are reported\<close>




subsection \<open>A callback that throws\<close>

lemma invoke_throws:
  "cb a = Some e \<Longrightarrow> invoke cb a w = (Inl e, w\<lparr>signals := signals w @ [Callback a]\<rparr>)"
  by (simp add: invoke_def Let_def)

text \<open>
  Claim C10 says that the error handler calls the callback a second time and routes
  the error to the error channel. The second call is made, but a callback that throws
  again ends the \<^verbatim>\<open>catch\<close> block there: \<^verbatim>\<open>handleError\<close> is not reached and the promise of
  the operation is rejected.
\<close>

theorem throwing_callback_counterexample:
  "get \<lparr>cleanupLimit = None, limitSubquery = True, onError = None, ttl = None, connected = True\<rparr>
     ''A'' (\<lambda>a. Some (Thrown ''boom''))
     \<lparr>now = 1000, rows = [], faults = (\<lambda>n. None), in_literal = (\<lambda>text i. False),
       JSON_stringify = (\<lambda>s. Inr ''{}''), JSON_parse = (\<lambda>s. Inl (SerializationError ''unused'')),
       issued = [], signals = []\<rparr>
   = (Inl (Thrown ''boom''),
      \<lparr>now = 1000, rows = [], faults = (\<lambda>n. None), in_literal = (\<lambda>text i. False),
       JSON_stringify = (\<lambda>s. Inr ''{}''), JSON_parse = (\<lambda>s. Inl (SerializationError ''unused'')),
       issued = [SelectOne \<lparr>expiredAfter = 1000, idEquals = Some ''A''\<rparr>],
       signals = [Callback CbDone, Callback (CbError (Thrown ''boom''))]\<rparr>)"
  by (simp add: get_def get_try_def createQueryBuilder_def getOne_def on_catch_def handleError_def io_defs)

text \<open>
  Claim C10, amended. For each public operation on a connected store: if the work
  before the completion callback succeeds and the callback throws \<open>e\<close> when called with
  the success result, the \<^verbatim>\<open>catch\<close> block calls the same callback a second time, with
  \<open>e\<close>. If that second call returns normally, \<open>e\<close> then goes to the error channel; if
  it throws \<open>e'\<close>, the error channel is not reached and the promise of the operation
  is rejected with \<open>e'\<close>. So the callback is called twice in one operation.
\<close>

theorem throwing_callback_called_twice:
  assumes "connected this"
  shows
    "(faults w (length (issued w)) = None \<and>
      find (matches \<lparr>expiredAfter = now w, idEquals = Some sid\<rparr>) (rows w) = None \<and>
      cb CbDone = Some e \<longrightarrow>
        signals (snd (get this sid cb w)) =
          signals w @ [Callback CbDone, Callback (CbError e)] @
            (if cb (CbError e) = None then [error_channel this e] else []) \<and>
        (cb (CbError e) = Some e' \<longrightarrow> fst (get this sid cb w) = Inl e')) \<and>
     (faults w (length (issued w)) = None \<and>
      find (matches \<lparr>expiredAfter = now w, idEquals = Some sid\<rparr>) (rows w) = Some s \<and>
      JSON_parse w (json s) = Inr d \<and> cb (CbResult d) = Some e \<longrightarrow>
        signals (snd (get this sid cb w)) =
          signals w @ [Callback (CbResult d), Callback (CbError e)] @
            (if cb (CbError e) = None then [error_channel this e] else []) \<and>
        (cb (CbError e) = Some e' \<longrightarrow> fst (get this sid cb w) = Inl e')) \<and>
     (faults w (length (issued w)) = None \<and>
      parse_rows (JSON_parse w) (filter (matches \<lparr>expiredAfter = now w, idEquals = None\<rparr>) (rows w)) = Inr res \<and>
      cb (CbAll res) = Some e \<longrightarrow>
        signals (snd (all' this cb w)) =
          signals w @ [Callback (CbAll res), Callback (CbAllError e)] @
            (if cb (CbAllError e) = None then [error_channel this e] else []) \<and>
        (cb (CbAllError e) = Some e' \<longrightarrow> fst (all' this cb w) = Inl e')) \<and>
     (getTTL this session None = Inr t \<and> faults w (length (issued w)) = None \<and>
      cb CbDone = Some e \<longrightarrow>
        signals (snd (touch this sid session (Some cb) w)) =
          signals w @ [Callback CbDone, Callback (CbError e)] @
            (if cb (CbError e) = None then [error_channel this e] else []) \<and>
        (cb (CbError e) = Some e' \<longrightarrow> fst (touch this sid session (Some cb) w) = Inl e')) \<and>
     (Promise_all_softDelete (as_list sids) w = (Inr (), w') \<and> cb CbDone = Some e \<longrightarrow>
        signals (snd (destroy this sids (Some cb) w)) =
          signals w @ [Callback CbDone, Callback (CbError e)] @
            (if cb (CbError e) = None then [error_channel this e] else []) \<and>
        (cb (CbError e) = Some e' \<longrightarrow> fst (destroy this sids (Some cb) w) = Inl e')) \<and>
     (JSON_stringify w session = Inr j \<and> getTTL this session (Some sid) = Inr t \<and>
      cleanup this w = (Inr (), w') \<and> upsert sid j t w' = (Inr (), w'') \<and> cb CbDone = Some e \<longrightarrow>
        signals (snd (set' this sid session (Some cb) w)) =
          signals w @ [Callback CbDone, Callback (CbError e)] @
            (if cb (CbError e) = None then [error_channel this e] else []) \<and>
        (cb (CbError e) = Some e' \<longrightarrow> fst (set' this sid session (Some cb) w) = Inl e'))"
proof (intro conjI impI)
  assume h: "faults w (length (issued w)) = None \<and>
      find (matches \<lparr>expiredAfter = now w, idEquals = Some sid\<rparr>) (rows w) = None \<and>
      cb CbDone = Some e"
  have tr: "get_try this sid cb w =
      (Inl e, (w\<lparr>issued := issued w @ [SelectOne \<lparr>expiredAfter = now w, idEquals = Some sid\<rparr>]\<rparr>)
                \<lparr>signals := signals (w\<lparr>issued := issued w @ [SelectOne \<lparr>expiredAfter = now w, idEquals = Some sid\<rparr>]\<rparr>)
                    @ [Callback CbDone]\<rparr>)"
    using assms h by (simp add: get_try_eval invoke_throws)
  show "signals (snd (get this sid cb w)) =
          signals w @ [Callback CbDone, Callback (CbError e)] @
            (if cb (CbError e) = None then [error_channel this e] else [])"
    by (simp add: get_def try_catch_def tr on_catch_signals)
next
  assume h: "faults w (length (issued w)) = None \<and>
      find (matches \<lparr>expiredAfter = now w, idEquals = Some sid\<rparr>) (rows w) = None \<and>
      cb CbDone = Some e"
    and r: "cb (CbError e) = Some e'"
  have tr: "get_try this sid cb w =
      (Inl e, (w\<lparr>issued := issued w @ [SelectOne \<lparr>expiredAfter = now w, idEquals = Some sid\<rparr>]\<rparr>)
                \<lparr>signals := signals (w\<lparr>issued := issued w @ [SelectOne \<lparr>expiredAfter = now w, idEquals = Some sid\<rparr>]\<rparr>)
                    @ [Callback CbDone]\<rparr>)"
    using assms h by (simp add: get_try_eval invoke_throws)
  show "fst (get this sid cb w) = Inl e'"
    using r by (simp add: get_def try_catch_def tr on_catch_eval)
next
  assume h: "faults w (length (issued w)) = None \<and>
      find (matches \<lparr>expiredAfter = now w, idEquals = Some sid\<rparr>) (rows w) = Some s \<and>
      JSON_parse w (json s) = Inr d \<and> cb (CbResult d) = Some e"
  have tr: "get_try this sid cb w =
      (Inl e, (w\<lparr>issued := issued w @ [SelectOne \<lparr>expiredAfter = now w, idEquals = Some sid\<rparr>]\<rparr>)
                \<lparr>signals := signals (w\<lparr>issued := issued w @ [SelectOne \<lparr>expiredAfter = now w, idEquals = Some sid\<rparr>]\<rparr>)
                    @ [Callback (CbResult d)]\<rparr>)"
    using assms h by (simp add: get_try_eval invoke_throws)
  show "signals (snd (get this sid cb w)) =
          signals w @ [Callback (CbResult d), Callback (CbError e)] @
            (if cb (CbError e) = None then [error_channel this e] else [])"
    by (simp add: get_def try_catch_def tr on_catch_signals)
next
  assume h: "faults w (length (issued w)) = None \<and>
      find (matches \<lparr>expiredAfter = now w, idEquals = Some sid\<rparr>) (rows w) = Some s \<and>
      JSON_parse w (json s) = Inr d \<and> cb (CbResult d) = Some e"
    and r: "cb (CbError e) = Some e'"
  have tr: "get_try this sid cb w =
      (Inl e, (w\<lparr>issued := issued w @ [SelectOne \<lparr>expiredAfter = now w, idEquals = Some sid\<rparr>]\<rparr>)
                \<lparr>signals := signals (w\<lparr>issued := issued w @ [SelectOne \<lparr>expiredAfter = now w, idEquals = Some sid\<rparr>]\<rparr>)
                    @ [Callback (CbResult d)]\<rparr>)"
    using assms h by (simp add: get_try_eval invoke_throws)
  show "fst (get this sid cb w) = Inl e'"
    using r by (simp add: get_def try_catch_def tr on_catch_eval)
next
  assume h: "faults w (length (issued w)) = None \<and>
      parse_rows (JSON_parse w) (filter (matches \<lparr>expiredAfter = now w, idEquals = None\<rparr>) (rows w)) = Inr res \<and>
      cb (CbAll res) = Some e"
  have tr: "all_try this cb w =
      (Inl e, (w\<lparr>issued := issued w @ [SelectMany \<lparr>expiredAfter = now w, idEquals = None\<rparr>]\<rparr>)
                \<lparr>signals := signals (w\<lparr>issued := issued w @ [SelectMany \<lparr>expiredAfter = now w, idEquals = None\<rparr>]\<rparr>)
                    @ [Callback (CbAll res)]\<rparr>)"
    using assms h by (simp add: all_try_eval invoke_throws)
  show "signals (snd (all' this cb w)) =
          signals w @ [Callback (CbAll res), Callback (CbAllError e)] @
            (if cb (CbAllError e) = None then [error_channel this e] else [])"
    by (simp add: all'_def try_catch_def tr on_catch_signals)
next
  assume h: "faults w (length (issued w)) = None \<and>
      parse_rows (JSON_parse w) (filter (matches \<lparr>expiredAfter = now w, idEquals = None\<rparr>) (rows w)) = Inr res \<and>
      cb (CbAll res) = Some e"
    and r: "cb (CbAllError e) = Some e'"
  have tr: "all_try this cb w =
      (Inl e, (w\<lparr>issued := issued w @ [SelectMany \<lparr>expiredAfter = now w, idEquals = None\<rparr>]\<rparr>)
                \<lparr>signals := signals (w\<lparr>issued := issued w @ [SelectMany \<lparr>expiredAfter = now w, idEquals = None\<rparr>]\<rparr>)
                    @ [Callback (CbAll res)]\<rparr>)"
    using assms h by (simp add: all_try_eval invoke_throws)
  show "fst (all' this cb w) = Inl e'"
    using r by (simp add: all'_def try_catch_def tr on_catch_eval)
next
  assume h: "getTTL this session None = Inr t \<and> faults w (length (issued w)) = None \<and>
      cb CbDone = Some e"
  let ?w = "w\<lparr>issued := issued w @ [UpdateExpiry sid (now w + t * 1000)],
               rows := map (\<lambda>r. if id' r = IdString sid
                                  then r\<lparr>expiredAt := now w + t * 1000\<rparr> else r) (rows w)\<rparr>"
  have tr: "touch_try this sid session (Some cb) w = (Inl e, ?w\<lparr>signals := signals ?w @ [Callback CbDone]\<rparr>)"
    using assms h by (simp add: touch_try_eval invoke_opt_def invoke_throws)
  show "signals (snd (touch this sid session (Some cb) w)) =
          signals w @ [Callback CbDone, Callback (CbError e)] @
            (if cb (CbError e) = None then [error_channel this e] else [])"
    by (simp add: touch_def try_catch_def tr on_catch_signals)
next
  assume h: "getTTL this session None = Inr t \<and> faults w (length (issued w)) = None \<and>
      cb CbDone = Some e"
    and r: "cb (CbError e) = Some e'"
  let ?w = "w\<lparr>issued := issued w @ [UpdateExpiry sid (now w + t * 1000)],
               rows := map (\<lambda>r. if id' r = IdString sid
                                  then r\<lparr>expiredAt := now w + t * 1000\<rparr> else r) (rows w)\<rparr>"
  have tr: "touch_try this sid session (Some cb) w = (Inl e, ?w\<lparr>signals := signals ?w @ [Callback CbDone]\<rparr>)"
    using assms h by (simp add: touch_try_eval invoke_opt_def invoke_throws)
  show "fst (touch this sid session (Some cb) w) = Inl e'"
    using r by (simp add: touch_def try_catch_def tr on_catch_eval)
next
  assume h: "Promise_all_softDelete (as_list sids) w = (Inr (), w') \<and> cb CbDone = Some e"
  have s: "signals w' = signals w"
    using h Promise_all_softDelete_signals [of "as_list sids" w] by simp
  have tr: "destroy_try this sids (Some cb) w = (Inl e, w'\<lparr>signals := signals w' @ [Callback CbDone]\<rparr>)"
    using assms h
    by (simp add: destroy_try_def getRepository_def return_io_def bind_io_def invoke_opt_def invoke_throws)
  from s
  show "signals (snd (destroy this sids (Some cb) w)) =
          signals w @ [Callback CbDone, Callback (CbError e)] @
            (if cb (CbError e) = None then [error_channel this e] else [])"
    by (simp add: destroy_def try_catch_def tr on_catch_signals)
next
  assume h: "Promise_all_softDelete (as_list sids) w = (Inr (), w') \<and> cb CbDone = Some e"
    and r: "cb (CbError e) = Some e'"
  have s: "signals w' = signals w"
    using h Promise_all_softDelete_signals [of "as_list sids" w] by simp
  have tr: "destroy_try this sids (Some cb) w = (Inl e, w'\<lparr>signals := signals w' @ [Callback CbDone]\<rparr>)"
    using assms h
    by (simp add: destroy_try_def getRepository_def return_io_def bind_io_def invoke_opt_def invoke_throws)
  show "fst (destroy this sids (Some cb) w) = Inl e'"
    using r by (simp add: destroy_def try_catch_def tr on_catch_eval)
next
  assume h: "JSON_stringify w session = Inr j \<and> getTTL this session (Some sid) = Inr t \<and>
      cleanup this w = (Inr (), w') \<and> upsert sid j t w' = (Inr (), w'') \<and> cb CbDone = Some e"
  have s: "signals w'' = signals w"
    using h cleanup_signals [of this w] upsert_signals [of sid j t w'] by simp
  have tr: "set_try this sid session (Some cb) w = (Inl e, w''\<lparr>signals := signals w'' @ [Callback CbDone]\<rparr>)"
    using assms h
    by (simp add: set_try_upsert [where j = j and t = t and ?w1.0 = w'] bind_io_def
        invoke_opt_def invoke_throws)
  from s
  show "signals (snd (set' this sid session (Some cb) w)) =
          signals w @ [Callback CbDone, Callback (CbError e)] @
            (if cb (CbError e) = None then [error_channel this e] else [])"
    by (simp add: set'_def try_catch_def tr on_catch_signals)
next
  assume h: "JSON_stringify w session = Inr j \<and> getTTL this session (Some sid) = Inr t \<and>
      cleanup this w = (Inr (), w') \<and> upsert sid j t w' = (Inr (), w'') \<and> cb CbDone = Some e"
    and r: "cb (CbError e) = Some e'"
  have s: "signals w'' = signals w"
    using h cleanup_signals [of this w] upsert_signals [of sid j t w'] by simp
  have tr: "set_try this sid session (Some cb) w = (Inl e, w''\<lparr>signals := signals w'' @ [Callback CbDone]\<rparr>)"
    using assms h
    by (simp add: set_try_upsert [where j = j and t = t and ?w1.0 = w'] bind_io_def
        invoke_opt_def invoke_throws)
  show "fst (set' this sid session (Some cb) w) = Inl e'"
    using r by (simp add: set'_def try_catch_def tr on_catch_eval)
qed

theorem throwing_callback_called_twice_witness:
  "signals (snd (get example_store ''D'' throws_on_success example_env)) =
     [Callback CbDone, Callback (CbError (Thrown ''boom'')), Emit ''disconnect'' (Thrown ''boom'')] \<and>
   signals (snd (get example_store ''A'' throws_on_success example_env)) =
     [Callback (CbResult example_session), Callback (CbError (Thrown ''boom'')),
      Emit ''disconnect'' (Thrown ''boom'')] \<and>
   signals (snd (all' example_store throws_on_success example_env)) =
     [Callback (CbAll [(IdString ''A'', example_session)]), Callback (CbAllError (Thrown ''boom'')),
      Emit ''disconnect'' (Thrown ''boom'')] \<and>
   signals (snd (touch example_store ''A'' example_session (Some throws_on_success) example_env)) =
     [Callback CbDone, Callback (CbError (Thrown ''boom'')), Emit ''disconnect'' (Thrown ''boom'')] \<and>
   signals (snd (destroy example_store (One ''A'') (Some throws_on_success) example_env)) =
     [Callback CbDone, Callback (CbError (Thrown ''boom'')), Emit ''disconnect'' (Thrown ''boom'')] \<and>
   signals (snd (set' example_store ''D'' example_session (Some throws_on_success) example_env)) =
     [Callback CbDone, Callback (CbError (Thrown ''boom'')), Emit ''disconnect'' (Thrown ''boom'')] \<and>
   signals (snd (get example_store ''D'' always_throws example_env)) =
     [Callback CbDone, Callback (CbError (Thrown ''boom''))] \<and>
   fst (get example_store ''D'' always_throws example_env) = Inl (Thrown ''boom'') \<and>
   fst (get example_store ''A'' always_throws example_env) = Inl (Thrown ''boom'') \<and>
   fst (all' example_store always_throws example_env) = Inl (Thrown ''boom'') \<and>
   fst (touch example_store ''A'' example_session (Some always_throws) example_env) = Inl (Thrown ''boom'') \<and>
   fst (destroy example_store (One ''A'') (Some always_throws) example_env) = Inl (Thrown ''boom'') \<and>
   fst (set' example_store ''D'' example_session (Some always_throws) example_env) = Inl (Thrown ''boom'')"
  using
    throwing_callback_called_twice [where this = example_store and w = example_env
      and cb = throws_on_success and e = "Thrown ''boom''" and sid = "''D''"
      and session = example_session and t = 2 and j = "''{}''" and sids = "One ''A''"
      and w' = "snd (Promise_all_softDelete [''A''] example_env)"
      and res = "[(IdString ''A'', example_session)]"]
    throwing_callback_called_twice [where this = example_store and w = example_env
      and cb = throws_on_success and e = "Thrown ''boom''" and sid = "''A''"
      and s = "\<lparr>id' = IdString ''A'', json = ''a'', expiredAt = 5000, destroyedAt = None\<rparr>"
      and d = example_session
      and session = example_session and t = 2 and j = "''{}''" and sids = "One ''A''"
      and w' = example_env and w'' = "snd (upsert ''D'' ''{}'' 2 example_env)"
      and res = "[(IdString ''A'', example_session)]"]
    throwing_callback_called_twice [where this = example_store and w = example_env
      and cb = throws_on_success and e = "Thrown ''boom''" and sid = "''D''"
      and session = example_session and t = 2 and j = "''{}''" and sids = "One ''A''"
      and w' = example_env and w'' = "snd (upsert ''D'' ''{}'' 2 example_env)"
      and res = "[(IdString ''A'', example_session)]"]
    throwing_callback_called_twice [where this = example_store and w = example_env
      and cb = always_throws and e = "Thrown ''boom''" and e' = "Thrown ''boom''" and sid = "''D''"
      and session = example_session and t = 2 and j = "''{}''" and sids = "One ''A''"
      and w' = "snd (Promise_all_softDelete [''A''] example_env)"
      and res = "[(IdString ''A'', example_session)]"]
    throwing_callback_called_twice [where this = example_store and w = example_env
      and cb = always_throws and e = "Thrown ''boom''" and e' = "Thrown ''boom''" and sid = "''A''"
      and s = "\<lparr>id' = IdString ''A'', json = ''a'', expiredAt = 5000, destroyedAt = None\<rparr>"
      and d = example_session
      and session = example_session and t = 2 and j = "''{}''" and sids = "One ''A''"
      and w' = example_env and w'' = "snd (upsert ''D'' ''{}'' 2 example_env)"
      and res = "[(IdString ''A'', example_session)]"]
    throwing_callback_called_twice [where this = example_store and w = example_env
      and cb = always_throws and e = "Thrown ''boom''" and e' = "Thrown ''boom''" and sid = "''D''"
      and session = example_session and t = 2 and j = "''{}''" and sids = "One ''A''"
      and w' = example_env and w'' = "snd (upsert ''D'' ''{}'' 2 example_env)"
      and res = "[(IdString ''A'', example_session)]"]
  by (simp add: example_store_def example_env_def example_rows_def example_session_def
      throws_on_success_def always_throws_def error_channel_def matches_def getTTL_def
      Math_floor_div_1000_eq as_list_def Promise_all_softDelete_def softDelete_def cleanup_def
      upsert_eval insert_row_def io_defs)

end
